theory Spec2Isabelle
  imports Main "HOL-Library.AList"
begin

section \<open>Python values, exceptions and dictionaries\<close>

text \<open>
  The processes of \<^verbatim>\<open>raven/processes\<close> are thin handlers around an external modelling
  library.  What they compute on are Python values handed over by the service framework
  (the \<^verbatim>\<open>data\<close> and \<^verbatim>\<open>file\<close> of a request input), values decoded from JSON, and opaque
  objects returned by the library.

  A float is modelled by the decimal literal that denotes it: \<open>Dec m k\<close> stands for the
  float written \<open>m / 10^k\<close>.  The handlers never compute with floats; they pass them on
  and, in one place, print them with \<^verbatim>\<open>str\<close>.
\<close>

datatype pyfloat = Dec int nat

datatype pyval =
    PNone
  | PBool bool
  | PInt int
  | PFloat pyfloat
  | PStr string
  | PList "pyval list"
  | PDict "(string \<times> pyval) list"

text \<open>
  An object of the external library (a data frame, a dataset, a figure).  The handlers
  only hand such objects from one library call to the next.
\<close>

datatype libobj = LibObj string

text \<open>
  \<^verbatim>\<open>Path(self.workdir) / "qsim.nc"\<close>: a path is kept as the directory and the file name
  joined under it.
\<close>

type_synonym path = "string \<times> string"

text \<open>
  Exceptions.  \<open>Raised is_exc tag\<close> is an exception raised by code outside this
  repository; \<open>is_exc\<close> tells whether its class derives from \<^verbatim>\<open>Exception\<close> (a
  \<^verbatim>\<open>KeyboardInterrupt\<close> or \<^verbatim>\<open>SystemExit\<close> does not).  \<open>ProcessError msg max_length
  allowed_chars\<close> is the framework's exception as the handler constructs it.
\<close>

datatype exn =
    KeyError string
  | IndexError
  | AttributeError
  | TypeError
  | ValueError
  | Raised bool string
  | ProcessError string nat string

fun is_Exception :: "exn \<Rightarrow> bool" where
  "is_Exception (Raised is_exc tag) = is_exc"
| "is_Exception e = True"

text \<open>Sequencing of steps that may raise: the first exception ends the sequence.\<close>

definition bind_exn :: "exn + 'a \<Rightarrow> ('a \<Rightarrow> exn + 'b) \<Rightarrow> exn + 'b" where
  "bind_exn m f = (case m of Inl e \<Rightarrow> Inl e | Inr x \<Rightarrow> f x)"

text \<open>
  A dictionary is an association list in insertion order; \<^const>\<open>AList.update\<close> is
  \<^verbatim>\<open>d[k] = v\<close> (an existing key keeps its place, a new one goes last),
  \<^const>\<open>map_of\<close> is the lookup and \<^const>\<open>AList.delete\<close> removes a key.
\<close>

definition pop :: "'k \<Rightarrow> ('k \<times> 'v) list \<Rightarrow> ('k \<Rightarrow> exn) \<Rightarrow> exn + ('v \<times> ('k \<times> 'v) list)" where
  "pop k d err = (case map_of d k of None \<Rightarrow> Inl (err k) | Some v \<Rightarrow> Inr (v, AList.delete k d))"

definition getitem :: "('k \<times> 'v) list \<Rightarrow> 'k \<Rightarrow> ('k \<Rightarrow> exn) \<Rightarrow> exn + 'v" where
  "getitem d k err = (case map_of d k of None \<Rightarrow> Inl (err k) | Some v \<Rightarrow> Inr v)"

text \<open>\<^verbatim>\<open>xs[0]\<close>\<close>

definition first :: "'a list \<Rightarrow> exn + 'a" where
  "first xs = (case xs of [] \<Rightarrow> Inl IndexError | x # _ \<Rightarrow> Inr x)"

text \<open>\<^verbatim>\<open>sep.join(parts)\<close>\<close>

fun join :: "string \<Rightarrow> string list \<Rightarrow> string" where
  "join sep [] = []"
| "join sep [s] = s"
| "join sep (s # t # ss) = s @ sep @ join sep (t # ss)"

section \<open>Declared inputs\<close>

text \<open>
  \<^verbatim>\<open>LiteralInput\<close> and \<^verbatim>\<open>ComplexInput\<close> declarations.  A keyword argument the
  declaration does not give is \<open>None\<close>: the framework's own defaults are not part of
  this repository.  The records keep the fields the framework validates a request
  against; the \<^verbatim>\<open>abstract\<close> of the regionalisation inputs is documentation text and is
  left out.
\<close>

record literal_input =
  "identifier" :: string
  title :: string
  data_type :: string
  allowed_values :: "pyval list option"
  default :: "pyval option"
  min_occurs :: "nat option"
  max_occurs :: "nat option"

datatype format = JSON | NETCDF | PNG

record complex_input =
  c_identifier :: string
  c_title :: string
  c_min_occurs :: "nat option"
  c_max_occurs :: "nat option"
  supported_formats :: "format list"

subsection \<open>\<^verbatim>\<open>wps_regionalisation.py\<close>: the inputs of \<^verbatim>\<open>RegionalisationProcess\<close>\<close>

text \<open>
  The declarations \<^verbatim>\<open>method\<close>, \<^verbatim>\<open>ndonors\<close>, \<^verbatim>\<open>min_NSE\<close> and \<^verbatim>\<open>properties\<close> of
  the class; the suffix keeps them apart from the handler's local variables of the same
  names.
\<close>

definition method_input :: literal_input where
  "method_input = \<lparr>
     identifier = ''method'',
     title = ''Regionalisation method'',
     data_type = ''string'',
     allowed_values = Some [PStr ''MLR'', PStr ''SP'', PStr ''PS'', PStr ''SP_IDW'',
                            PStr ''PS_IDW'', PStr ''SP_IDW_RA'', PStr ''PS_IDW_RA''],
     default = Some (PStr ''SP_IDW''),
     min_occurs = Some 0,
     max_occurs = None \<rparr>"

definition ndonors_input :: literal_input where
  "ndonors_input = \<lparr>
     identifier = ''ndonors'',
     title = ''Number of gauged catchments to use for the regionalizaion.'',
     data_type = ''integer'',
     allowed_values = None,
     default = Some (PInt 5),
     min_occurs = Some 0,
     max_occurs = None \<rparr>"

definition min_NSE_input :: literal_input where
  "min_NSE_input = \<lparr>
     identifier = ''min_NSE'',
     title = ''NSE Score (unitless)'',
     data_type = ''float'',
     allowed_values = None,
     default = Some (PFloat (Dec 6 1)),
     min_occurs = Some 0,
     max_occurs = None \<rparr>"

definition properties_input :: complex_input where
  "properties_input = \<lparr>
     c_identifier = ''properties'',
     c_title = ''Regionalization properties'',
     c_min_occurs = Some 1,
     c_max_occurs = Some 1,
     supported_formats = [JSON] \<rparr>"

subsection \<open>\<^verbatim>\<open>wps_raven_hbv_ec.py\<close>: the \<^verbatim>\<open>params\<close> input of the HBV-EC process\<close>

text \<open>
  \<^verbatim>\<open>str\<close> of a non-negative integer: its decimal digits.
\<close>

definition digit :: "nat \<Rightarrow> char" where
  "digit d = ''0123456789'' ! d"

fun nat_digits :: "nat \<Rightarrow> string" where
  "nat_digits n =
     (if n < 10 then [digit n]
      else nat_digits (n div 10) @ [digit (n mod 10)])"

text \<open>
  \<^verbatim>\<open>str\<close> of a float.  Python prints the shortest decimal string that reads back as the
  same float: for a float denoted by a literal of at most 15 significant digits, and of
  magnitude from \<open>1e-4\<close> up to \<open>1e16\<close>, these are the literal's own digits in positional
  notation, without trailing zeros and with at least one digit after the point.  Every
  float literal of the sources is of this kind, and \<open>str_float\<close> is meant for such
  floats only.
\<close>

fun strip_zeros :: "nat \<Rightarrow> nat \<Rightarrow> nat \<times> nat" where
  "strip_zeros m k =
     (if k = 0 \<or> m mod 10 \<noteq> 0 then (m, k) else strip_zeros (m div 10) (k - 1))"

definition frac_digits :: "nat \<Rightarrow> nat \<Rightarrow> string" where
  "frac_digits f k =
     (if k = 0 then ''0''
      else replicate (k - length (nat_digits f)) (CHR ''0'') @ nat_digits f)"

fun str_float :: "pyfloat \<Rightarrow> string" where
  "str_float (Dec m k) =
     (case strip_zeros (nat \<bar>m\<bar>) k of (a, j) \<Rightarrow>
        (if m < 0 then ''-'' else '''') @
        nat_digits (a div 10 ^ j) @ ''.'' @ frac_digits (a mod 10 ^ j) j)"

text \<open>
  Modelled from the spec: \<^verbatim>\<open>HBVEC.Params\<close> is a dataclass declared in the external
  library, not in these sources.  Its fields are \<^verbatim>\<open>par_x01\<close> to \<^verbatim>\<open>par_x21\<close> in this
  order, the order in which the source gives the keyword arguments below.  An instance
  is the list of its fields with their values, in field order; \<^verbatim>\<open>fields\<close>
  (\<open>dataclass_fields\<close> here, the record package owns the other name) yields the
  names and \<^verbatim>\<open>astuple\<close> the values.
\<close>

type_synonym hbvec_params = "(string \<times> pyfloat) list"

definition dataclass_fields :: "hbvec_params \<Rightarrow> string list" where
  "dataclass_fields p = map fst p"

definition astuple :: "hbvec_params \<Rightarrow> pyfloat list" where
  "astuple p = map snd p"

definition params_defaults :: hbvec_params where
  "params_defaults =
     [(''par_x01'', Dec 5984519 8),
      (''par_x02'', Dec 4072232 6),
      (''par_x03'', Dec 2001574 6),
      (''par_x04'', Dec 3473693 8),
      (''par_x05'', Dec 9985144 8),
      (''par_x06'', Dec 506052 6),
      (''par_x07'', Dec 3438486 6),
      (''par_x08'', Dec 3832455 5),
      (''par_x09'', Dec 4606565 7),
      (''par_x10'', Dec 6303738 8),
      (''par_x11'', Dec 2277781 6),
      (''par_x12'', Dec 4873686 6),
      (''par_x13'', Dec 5718813 7),
      (''par_x14'', Dec 4505643 8),
      (''par_x15'', Dec 877607 6),
      (''par_x16'', Dec 1894145 5),
      (''par_x17'', Dec 2036937 6),
      (''par_x18'', Dec 4452843 7),
      (''par_x19'', Dec 6771759 7),
      (''par_x20'', Dec 1141608 6),
      (''par_x21'', Dec 1024278 6)]"

definition params_abstract :: string where
  "params_abstract = ''Parameters: '' @ join '', '' (dataclass_fields params_defaults)"

text \<open>
  The \<^verbatim>\<open>params\<close> input; \<^verbatim>\<open>config.max_parallel_processes\<close> is configuration of the
  deployment and is a parameter here.  Its \<^verbatim>\<open>abstract\<close> is \<^const>\<open>params_abstract\<close>.
\<close>

definition params_input :: "nat \<Rightarrow> literal_input" where
  "params_input max_parallel_processes = \<lparr>
     identifier = ''params'',
     title = ''Comma separated list of model parameters'',
     data_type = ''string'',
     allowed_values = None,
     default = Some (PStr (join '', '' (map str_float (astuple params_defaults)))),
     min_occurs = Some 0,
     max_occurs = Some max_parallel_processes \<rparr>"

section \<open>\<^verbatim>\<open>wps_regionalisation.py\<close>: \<^verbatim>\<open>RegionalisationProcess._handler\<close>\<close>

text \<open>
  One occurrence of a request input: its \<^verbatim>\<open>data\<close> and its \<^verbatim>\<open>file\<close>.
  \<^verbatim>\<open>request.inputs\<close> is a dictionary from the input's identifier to the list of its
  occurrences.
\<close>

record wps_input =
  data :: pyval
  file_path :: string

type_synonym request_inputs = "(string \<times> wps_input list) list"

text \<open>
  \<^verbatim>\<open>kwds\<close>: a dictionary whose keys are Python values.  Keys are compared as HOL values;
  Python identifies keys that are equal as numbers (\<^verbatim>\<open>1\<close>, \<^verbatim>\<open>1.0\<close> and \<^verbatim>\<open>True\<close>),
  which differ here.  Such keys can only come from a \<^verbatim>\<open>nc_spec\<close> that is not a JSON
  object, and none of them is a string: string keys, the only ones a call accepts as
  keywords, are compared as Python compares them.
\<close>

type_synonym kwds = "(pyval \<times> pyval) list"

text \<open>
  The arguments of the call
  \<^verbatim>\<open>regionalize(method, model_name, nash, params, props, ungauged_props, size=ndonors,
  min_NSE=min_NSE, ts=ts, **kwds)\<close>: six positional arguments, three keywords and the
  dictionary that is unpacked.
\<close>

record reg_args =
  arg_method :: pyval
  arg_model_name :: pyval
  arg_nash :: libobj
  arg_params :: libobj
  arg_props :: libobj
  arg_ungauged_props :: "(string \<times> pyval) list"
  kw_size :: pyval
  kw_min_NSE :: pyval
  kw_ts :: "string list"
  unpacked_kwds :: kwds

text \<open>
  The code outside the repository that the handler calls: \<^verbatim>\<open>json.loads\<close>, the three
  functions of \<^verbatim>\<open>ravenpy.utilities\<close>, \<^verbatim>\<open>traceback.format_exc\<close> and the \<^verbatim>\<open>to_netcdf\<close> of
  the two datasets that \<^verbatim>\<open>regionalize\<close> returns.  Each is a parameter and, but for
  \<^verbatim>\<open>format_exc\<close>, may raise.  \<open>regionalize lib args\<close> is the outcome of the whole call
  expression, Python's binding of the arguments included (a \<^verbatim>\<open>TypeError\<close> for a key of
  \<^verbatim>\<open>kwds\<close> that is no string or that repeats a keyword).  \<open>to_netcdf lib obj p\<close> is
  \<open>None\<close> when the call returns and the exception when it raises.
\<close>

record library =
  json_loads :: "pyval \<Rightarrow> exn + pyval"
  read_gauged_params :: "pyval \<Rightarrow> exn + (libobj \<times> libobj)"
  read_gauged_properties :: "string list \<Rightarrow> exn + libobj"
  regionalize :: "reg_args \<Rightarrow> exn + (libobj \<times> libobj)"
  format_exc :: "exn \<Rightarrow> string"
  to_netcdf :: "libobj \<Rightarrow> path \<Rightarrow> exn option"

text \<open>
  What a handler does besides returning: status updates and output files set on the
  response, calls into the library, log entries, and the calls that write a file
  (\<open>To_netcdf\<close>, \<open>Savefig\<close>), recorded when the call is made, whether it then returns
  or raises.  A run of a handler yields the list of these events in order.
\<close>

datatype event =
    Update_status string nat
  | Call_read_gauged_params pyval
  | Call_read_gauged_properties "string list"
  | Call_regionalize reg_args
  | LOGGER_exception exn
  | To_netcdf libobj path
  | Set_output_file string path
  | Call_hindcast string pyval string pyval
  | Call_forecast string pyval
  | Savefig libobj path
  | Plt_close libobj

text \<open>\<^verbatim>\<open>string.printable\<close>: digits, letters, punctuation and whitespace.\<close>

definition string_printable :: string where
  "string_printable =
     ''0123456789'' @ ''abcdefghijklmnopqrstuvwxyz'' @ ''ABCDEFGHIJKLMNOPQRSTUVWXYZ'' @
     ''!'' @ [CHR 0x22] @ ''#$%&'' @ [CHR 0x27] @ ''()*+,-./:;<=>?@['' @ [CHR 0x5C] @
     '']^_`{|}~'' @ '' '' @ [CHR 0x09, CHR 0x0A, CHR 0x0D, CHR 0x0B, CHR 0x0C]"

subsection \<open>\<^verbatim>\<open>kwds.update(json.loads(spec.data))\<close>\<close>

text \<open>
  \<^verbatim>\<open>dict.update\<close> takes a dictionary, or else an iterable of key/value pairs: each
  element is iterated and must yield exactly two values, the first of which must be
  hashable.
\<close>

fun iterate :: "pyval \<Rightarrow> exn + pyval list" where
  "iterate (PList xs) = Inr xs"
| "iterate (PStr s) = Inr (map (\<lambda>c. PStr [c]) s)"
| "iterate (PDict d) = Inr (map (\<lambda>kv. PStr (fst kv)) d)"
| "iterate v = Inl TypeError"

fun hashable :: "pyval \<Rightarrow> bool" where
  "hashable (PList xs) = False"
| "hashable (PDict d) = False"
| "hashable v = True"

fun pair_of :: "pyval list \<Rightarrow> exn + (pyval \<times> pyval)" where
  "pair_of [k, v] = Inr (k, v)"
| "pair_of xs = Inl ValueError"

fun update_from_pairs :: "kwds \<Rightarrow> pyval list \<Rightarrow> exn + kwds" where
  "update_from_pairs kw [] = Inr kw"
| "update_from_pairs kw (item # items) =
     (case iterate item of
        Inl e \<Rightarrow> Inl e
      | Inr xs \<Rightarrow>
          (case pair_of xs of
             Inl e \<Rightarrow> Inl e
           | Inr kv \<Rightarrow>
               if hashable (fst kv)
               then update_from_pairs (AList.update (fst kv) (snd kv) kw) items
               else Inl TypeError))"

fun update_from_dict :: "kwds \<Rightarrow> (string \<times> pyval) list \<Rightarrow> kwds" where
  "update_from_dict kw [] = kw"
| "update_from_dict kw (kv # d) = update_from_dict (AList.update (PStr (fst kv)) (snd kv) kw) d"

fun dict_update :: "kwds \<Rightarrow> pyval \<Rightarrow> exn + kwds" where
  "dict_update kw (PDict d) = Inr (update_from_dict kw d)"
| "dict_update kw v = bind_exn (iterate v) (update_from_pairs kw)"

text \<open>
  \<^verbatim>\<open>for spec in request.inputs.pop("nc_spec", []): kwds.update(json.loads(spec.data))\<close>
\<close>

fun update_nc_spec :: "library \<Rightarrow> kwds \<Rightarrow> wps_input list \<Rightarrow> exn + kwds" where
  "update_nc_spec lib kw [] = Inr kw"
| "update_nc_spec lib kw (spec # specs) =
     (case json_loads lib (data spec) of
        Inl e \<Rightarrow> Inl e
      | Inr v \<Rightarrow>
          (case dict_update kw v of
             Inl e \<Rightarrow> Inl e
           | Inr kw' \<Rightarrow> update_nc_spec lib kw' specs))"

text \<open>
  \<^verbatim>\<open>for key, val in request.inputs.items(): kwds[key] = request.inputs[key][0].data\<close>:
  the loop runs over the items of the dictionary \<open>d\<close> and looks each key up in \<open>d\<close>
  again.
\<close>

fun update_items :: "request_inputs \<Rightarrow> kwds \<Rightarrow> request_inputs \<Rightarrow> exn + kwds" where
  "update_items d kw [] = Inr kw"
| "update_items d kw (item # items) =
     (case bind_exn (getitem d (fst item) KeyError) first of
        Inl e \<Rightarrow> Inl e
      | Inr i \<Rightarrow> update_items d (AList.update (PStr (fst item)) (data i) kw) items)"

subsection \<open>Reading the request (lines 169 to 184)\<close>

text \<open>\<^verbatim>\<open>request.inputs.pop(k)[0]\<close>\<close>

definition pop_first :: "string \<Rightarrow> request_inputs \<Rightarrow> exn + (wps_input \<times> request_inputs)" where
  "pop_first k d =
     bind_exn (pop k d KeyError) (\<lambda>popped.
     bind_exn (first (fst popped)) (\<lambda>i. Inr (i, snd popped)))"

text \<open>\<^verbatim>\<open>request.inputs.pop("nc_spec", [])\<close>\<close>

definition pop_default :: "string \<Rightarrow> request_inputs \<Rightarrow> wps_input list \<times> request_inputs" where
  "pop_default k d = (case map_of d k of None \<Rightarrow> ([], d) | Some v \<Rightarrow> (v, AList.delete k d))"

record handler_locals =
  ts :: "string list"
  model_name :: pyval
  "method" :: pyval
  ndonors :: pyval
  min_NSE :: pyval
  properties :: pyval
  kwds :: kwds

definition read_inputs :: "library \<Rightarrow> request_inputs \<Rightarrow> exn + handler_locals" where
  "read_inputs lib inputs =
     bind_exn (pop ''ts'' inputs KeyError) (\<lambda>p1.
     bind_exn (pop_first ''model_name'' (snd p1)) (\<lambda>p2.
     bind_exn (pop_first ''method'' (snd p2)) (\<lambda>p3.
     bind_exn (pop_first ''ndonors'' (snd p3)) (\<lambda>p4.
     bind_exn (pop_first ''min_NSE'' (snd p4)) (\<lambda>p5.
     bind_exn (pop_first ''properties'' (snd p5)) (\<lambda>p6.
     bind_exn (json_loads lib (data (fst p6))) (\<lambda>decoded.
     bind_exn (update_nc_spec lib [] (fst (pop_default ''nc_spec'' (snd p6)))) (\<lambda>kw1.
     bind_exn (update_items (snd (pop_default ''nc_spec'' (snd p6))) kw1
                 (snd (pop_default ''nc_spec'' (snd p6)))) (\<lambda>kw2.
       Inr \<lparr> ts = map file_path (fst p1),
             model_name = data (fst p2),
             method = data (fst p3),
             ndonors = data (fst p4),
             min_NSE = data (fst p5),
             properties = decoded,
             kwds = kw2 \<rparr>)))))))))"

subsection \<open>The handler\<close>

text \<open>
  \<^verbatim>\<open>{key: properties[key] for key in properties}\<close>, over the keys \<open>ks\<close> of the
  dictionary \<open>d\<close>.
\<close>

fun comprehension :: "(string \<times> pyval) list \<Rightarrow> string list \<Rightarrow> (string \<times> pyval) list
    \<Rightarrow> exn + (string \<times> pyval) list" where
  "comprehension d [] acc = Inr acc"
| "comprehension d (key # ks) acc =
     (case getitem d key KeyError of
        Inl e \<Rightarrow> Inl e
      | Inr v \<Rightarrow> comprehension d ks (AList.update key v acc))"

text \<open>
  Lines 217 to 229, after \<^verbatim>\<open>regionalize\<close> has returned \<^verbatim>\<open>qsim\<close> and \<^verbatim>\<open>ensemble\<close>: the
  status, then each dataset is written and, once written, set as an output.  A
  \<^verbatim>\<open>to_netcdf\<close> that raises ends the run there.
\<close>

definition write_outputs ::
    "library \<Rightarrow> string \<Rightarrow> libobj \<times> libobj \<Rightarrow> exn option \<times> event list" where
  "write_outputs lib workdir qsim_ensemble =
     (let t1 = [Update_status ''Computed regionalization'' 99,
                To_netcdf (fst qsim_ensemble) (workdir, ''qsim.nc'')] in
      case to_netcdf lib (fst qsim_ensemble) (workdir, ''qsim.nc'') of
        Some e \<Rightarrow> (Some e, t1)
      | None \<Rightarrow>
         (let t2 = t1 @ [Set_output_file ''hydrograph'' (workdir, ''qsim.nc''),
                         To_netcdf (snd qsim_ensemble) (workdir, ''ensemble.nc'')] in
          case to_netcdf lib (snd qsim_ensemble) (workdir, ''ensemble.nc'') of
            Some e \<Rightarrow> (Some e, t2)
          | None \<Rightarrow>
             (None, t2 @ [Set_output_file ''ensemble'' (workdir, ''ensemble.nc'')])))"

text \<open>
  The result of a run: the exception the handler ends with, or \<open>None\<close> when it returns
  the response, and the events of the run.  \<^verbatim>\<open>properties.keys()\<close> raises
  \<^verbatim>\<open>AttributeError\<close> when the decoded JSON is no object.  The \<^verbatim>\<open>try\<close> encloses the call
  of \<^verbatim>\<open>regionalize\<close> only, and its \<^verbatim>\<open>except Exception\<close> lets an exception that is no
  \<^verbatim>\<open>Exception\<close> pass.
\<close>

definition RegionalisationProcess_handler ::
    "library \<Rightarrow> string \<Rightarrow> request_inputs \<Rightarrow> exn option \<times> event list" where
  "RegionalisationProcess_handler lib workdir inputs =
     (case read_inputs lib inputs of
        Inl e \<Rightarrow> (Some e, [])
      | Inr l \<Rightarrow>
         (let t1 = [Update_status ''Inputs are read'' 1,
                    Call_read_gauged_params (model_name l)] in
          case read_gauged_params lib (model_name l) of
            Inl e \<Rightarrow> (Some e, t1)
          | Inr nash_params \<Rightarrow>
             (let t2 = t1 @ [Update_status ''Gauged params are read'' 2] in
              case properties l of
                PDict d \<Rightarrow>
                  (let t3 = t2 @ [Call_read_gauged_properties (map fst d)] in
                   case read_gauged_properties lib (map fst d) of
                     Inl e \<Rightarrow> (Some e, t3)
                   | Inr props \<Rightarrow>
                      (case comprehension d (map fst d) [] of
                         Inl e \<Rightarrow> (Some e, t3)
                       | Inr ungauged_props \<Rightarrow>
                          (let args = \<lparr> arg_method = method l,
                                        arg_model_name = model_name l,
                                        arg_nash = fst nash_params,
                                        arg_params = snd nash_params,
                                        arg_props = props,
                                        arg_ungauged_props = ungauged_props,
                                        kw_size = ndonors l,
                                        kw_min_NSE = min_NSE l,
                                        kw_ts = ts l,
                                        unpacked_kwds = kwds l \<rparr>;
                               t4 = t3 @ [Update_status ''Gauged properties are read'' 3,
                                          Call_regionalize args] in
                           case regionalize lib args of
                             Inl exc \<Rightarrow>
                               if is_Exception exc
                               then (Some (ProcessError (format_exc lib exc)
                                             (length (format_exc lib exc)) string_printable),
                                     t4 @ [LOGGER_exception exc])
                               else (Some exc, t4)
                           | Inr qsim_ensemble \<Rightarrow>
                               (fst (write_outputs lib workdir qsim_ensemble),
                                t4 @ snd (write_outputs lib workdir qsim_ensemble)))))
              | _ \<Rightarrow> (Some AttributeError, t2))))"

section \<open>\<^verbatim>\<open>wps_graph_forecast_uncertainty.py\<close>: \<^verbatim>\<open>GraphFcstUncertaintyProcess._handler\<close>\<close>

text \<open>
  The plotting helpers \<^verbatim>\<open>hindcast\<close> and \<^verbatim>\<open>forecast\<close> of \<^verbatim>\<open>raven.utilities.graphs\<close> are
  parameters; each returns a figure or raises.  So are \<^verbatim>\<open>fig.savefig\<close> and
  \<^verbatim>\<open>plt.close\<close> of matplotlib: \<open>None\<close> when the call returns, the exception when it
  raises.
\<close>

record graphs =
  hindcast :: "string \<Rightarrow> pyval \<Rightarrow> string \<Rightarrow> pyval \<Rightarrow> exn + libobj"
  forecast :: "string \<Rightarrow> pyval \<Rightarrow> exn + libobj"
  savefig :: "libobj \<Rightarrow> path \<Rightarrow> exn option"
  plt_close :: "libobj \<Rightarrow> exn option"

text \<open>\<^verbatim>\<open>request.inputs[k][0]\<close>\<close>

definition getitem_first :: "request_inputs \<Rightarrow> string \<Rightarrow> exn + wps_input" where
  "getitem_first d k = bind_exn (getitem d k KeyError) first"

text \<open>
  Lines 65 to 71: the figure, or the exception raised on the way, with the call made.
\<close>

definition make_figure ::
    "graphs \<Rightarrow> request_inputs \<Rightarrow> string \<Rightarrow> pyval \<Rightarrow> (exn + libobj) \<times> event list" where
  "make_figure g inputs sim_fn fcst_var =
     (if map_of inputs ''qobs'' \<noteq> None
      then (case getitem_first inputs ''qobs'' of
              Inl e \<Rightarrow> (Inl e, [])
            | Inr qobs \<Rightarrow>
               (case getitem_first inputs ''qobs_var'' of
                  Inl e \<Rightarrow> (Inl e, [])
                | Inr qobs_var \<Rightarrow>
                   (hindcast g sim_fn fcst_var (file_path qobs) (data qobs_var),
                    [Call_hindcast sim_fn fcst_var (file_path qobs) (data qobs_var)])))
      else (forecast g sim_fn fcst_var, [Call_forecast sim_fn fcst_var]))"

text \<open>
  The handler: the two inputs it always reads, the figure, then lines 73 to 77.  The
  output is set only after \<^verbatim>\<open>savefig\<close> and \<^verbatim>\<open>plt.close\<close> have returned.
\<close>

definition GraphFcstUncertaintyProcess_handler ::
    "graphs \<Rightarrow> string \<Rightarrow> request_inputs \<Rightarrow> exn option \<times> event list" where
  "GraphFcstUncertaintyProcess_handler g workdir inputs =
     (case getitem_first inputs ''fcst'' of
        Inl e \<Rightarrow> (Some e, [])
      | Inr fcst \<Rightarrow>
         (case getitem_first inputs ''fcst_var'' of
            Inl e \<Rightarrow> (Some e, [])
          | Inr fcst_var \<Rightarrow>
             (case make_figure g inputs (file_path fcst) (data fcst_var) of
                (Inl e, tr) \<Rightarrow> (Some e, tr)
              | (Inr fig, tr) \<Rightarrow>
                 (let t1 = tr @ [Savefig fig (workdir, ''forecast_hydrographs.png'')] in
                  case savefig g fig (workdir, ''forecast_hydrographs.png'') of
                    Some e \<Rightarrow> (Some e, t1)
                  | None \<Rightarrow>
                     (let t2 = t1 @ [Plt_close fig] in
                      case plt_close g fig of
                        Some e \<Rightarrow> (Some e, t2)
                      | None \<Rightarrow>
                         (None,
                          t2 @ [Set_output_file ''graph_forecasts''
                                  (workdir, ''forecast_hydrographs.png'')]))))))"

section \<open>Vocabulary of the statements\<close>

text \<open>
  The identifiers the handler of the regionalisation process pops from
  \<^verbatim>\<open>request.inputs\<close> before its loop over the items, and the dictionary that is left
  for the loop.
\<close>

definition consumed :: "string list" where
  "consumed =
     [''ts'', ''model_name'', ''method'', ''ndonors'', ''min_NSE'', ''properties'', ''nc_spec'']"

definition remaining :: "request_inputs \<Rightarrow> request_inputs" where
  "remaining inputs =
     AList.delete ''nc_spec'' (AList.delete ''properties'' (AList.delete ''min_NSE''
       (AList.delete ''ndonors'' (AList.delete ''method'' (AList.delete ''model_name''
         (AList.delete ''ts'' inputs))))))"

text \<open>The events of a run up to the call of \<^verbatim>\<open>regionalize\<close>.\<close>

definition gauged_prefix :: "handler_locals \<Rightarrow> (string \<times> pyval) list \<Rightarrow> event list" where
  "gauged_prefix l d =
     [Update_status ''Inputs are read'' 1,
      Call_read_gauged_params (model_name l),
      Update_status ''Gauged params are read'' 2,
      Call_read_gauged_properties (map fst d),
      Update_status ''Gauged properties are read'' 3]"

section \<open>Example requests\<close>

text \<open>
  A request to the regionalisation process with one occurrence of each input, and a
  library that answers it.
\<close>

definition example_properties_json :: string where
  "example_properties_json =
     ''{'' @ [CHR 0x22] @ ''area'' @ [CHR 0x22] @ '': 4250.6, '' @
     [CHR 0x22] @ ''latitude'' @ [CHR 0x22] @ '': 54.4848}''"

definition example_nc_spec_json :: string where
  "example_nc_spec_json =
     ''{'' @ [CHR 0x22] @ ''latitude'' @ [CHR 0x22] @ '': 0, '' @
     [CHR 0x22] @ ''tasmax'' @ [CHR 0x22] @ '': 1}''"

definition literal :: "pyval \<Rightarrow> wps_input" where
  "literal v = \<lparr> data = v, file_path = [] \<rparr>"

definition example_inputs :: request_inputs where
  "example_inputs =
     [(''ts'', [\<lparr> data = PNone, file_path = ''/data/meteo.nc'' \<rparr>]),
      (''latitude'', [literal (PFloat (Dec 544848 4))]),
      (''model_name'', [literal (PStr ''GR4JCN'')]),
      (''ndonors'', [literal (PInt 5)]),
      (''min_NSE'', [literal (PFloat (Dec 6 1))]),
      (''method'', [literal (PStr ''SP_IDW'')]),
      (''properties'', [literal (PStr example_properties_json)])]"

definition example_traceback :: string where
  "example_traceback =
     ''Traceback (most recent call last): <module> ValueError: '' @ replicate 300 (CHR ''x'')"

definition example_library :: library where
  "example_library = \<lparr>
     json_loads = (\<lambda>v.
       if v = PStr example_properties_json
       then Inr (PDict [(''area'', PFloat (Dec 42506 1)), (''latitude'', PFloat (Dec 544848 4))])
       else if v = PStr example_nc_spec_json
       then Inr (PDict [(''latitude'', PInt 0), (''tasmax'', PInt 1)])
       else Inl (Raised True ''JSONDecodeError'')),
     read_gauged_params = (\<lambda>m. Inr (LibObj ''nash'', LibObj ''params'')),
     read_gauged_properties = (\<lambda>ks. Inr (LibObj ''props'')),
     regionalize = (\<lambda>a. Inr (LibObj ''qsim'', LibObj ''ensemble'')),
     format_exc = (\<lambda>e. example_traceback),
     to_netcdf = (\<lambda>obj p. None) \<rparr>"

definition example_args :: reg_args where
  "example_args = \<lparr>
     arg_method = PStr ''SP_IDW'',
     arg_model_name = PStr ''GR4JCN'',
     arg_nash = LibObj ''nash'',
     arg_params = LibObj ''params'',
     arg_props = LibObj ''props'',
     arg_ungauged_props =
       [(''area'', PFloat (Dec 42506 1)), (''latitude'', PFloat (Dec 544848 4))],
     kw_size = PInt 5,
     kw_min_NSE = PFloat (Dec 6 1),
     kw_ts = [''/data/meteo.nc''],
     unpacked_kwds = [(PStr ''latitude'', PFloat (Dec 544848 4))] \<rparr>"

text \<open>
  The same request with a second occurrence of \<^verbatim>\<open>latitude\<close> and a \<^verbatim>\<open>nc_spec\<close> that
  also has the key \<^verbatim>\<open>latitude\<close>.
\<close>

definition override_inputs :: request_inputs where
  "override_inputs =
     [(''ts'', [\<lparr> data = PNone, file_path = ''/data/meteo.nc'' \<rparr>]),
      (''latitude'', [literal (PFloat (Dec 544848 4)), literal (PFloat (Dec 10 0))]),
      (''nc_spec'', [literal (PStr example_nc_spec_json)]),
      (''model_name'', [literal (PStr ''GR4JCN'')]),
      (''ndonors'', [literal (PInt 5)]),
      (''min_NSE'', [literal (PFloat (Dec 6 1))]),
      (''method'', [literal (PStr ''SP_IDW'')]),
      (''properties'', [literal (PStr example_properties_json)])]"

text \<open>The same library with one of its functions raising.\<close>

definition regionalize_raises :: library where
  "regionalize_raises =
     example_library\<lparr> regionalize := (\<lambda>a. Inl (Raised True ''ValueError'')) \<rparr>"

definition read_gauged_params_raises :: library where
  "read_gauged_params_raises =
     example_library\<lparr> read_gauged_params := (\<lambda>m. Inl (Raised True ''OSError'')) \<rparr>"

definition read_gauged_properties_raises :: library where
  "read_gauged_properties_raises =
     example_library\<lparr> read_gauged_properties := (\<lambda>ks. Inl (Raised True ''OSError'')) \<rparr>"

text \<open>The same library when the second dataset cannot be written.\<close>

definition ensemble_unwritable :: library where
  "ensemble_unwritable =
     example_library\<lparr> to_netcdf := (\<lambda>obj p.
       if obj = LibObj ''ensemble'' then Some (Raised True ''PermissionError'') else None) \<rparr>"

text \<open>Requests to the graph process, without and with observations.\<close>

definition example_graphs :: graphs where
  "example_graphs = \<lparr>
     hindcast = (\<lambda>sim_fn fcst_var qobs_fn qobs_var. Inr (LibObj ''hindcast figure'')),
     forecast = (\<lambda>sim_fn fcst_var. Inr (LibObj ''forecast figure'')),
     savefig = (\<lambda>fig p. None),
     plt_close = (\<lambda>fig. None) \<rparr>"

text \<open>The same helpers with a figure that cannot be saved.\<close>

definition savefig_raises :: graphs where
  "savefig_raises =
     example_graphs\<lparr> savefig := (\<lambda>fig p. Some (Raised True ''PermissionError'')) \<rparr>"

definition example_forecast_inputs :: request_inputs where
  "example_forecast_inputs =
     [(''fcst'', [\<lparr> data = PNone, file_path = ''/data/fcst.nc'' \<rparr>]),
      (''fcst_var'', [\<lparr> data = PStr ''q_sim'', file_path = [] \<rparr>]),
      (''qobs_var'', [\<lparr> data = PStr ''q_obs'', file_path = [] \<rparr>])]"

definition example_hindcast_inputs :: request_inputs where
  "example_hindcast_inputs =
     example_forecast_inputs @
     [(''qobs'', [\<lparr> data = PNone, file_path = ''/data/qobs.nc'' \<rparr>])]"

section \<open>The declared schema of the regionalisation endpoint\<close>

text \<open>
  C4.  The \<^verbatim>\<open>method\<close> input accepts exactly the seven values MLR, SP, PS, SP_IDW,
  PS_IDW, SP_IDW_RA and PS_IDW_RA and defaults to SP_IDW; \<^verbatim>\<open>ndonors\<close> is an integer
  defaulting to 5; \<^verbatim>\<open>min_NSE\<close> is a float defaulting to 0.6; these three are optional
  (\<^verbatim>\<open>min_occurs\<close> 0).  The \<^verbatim>\<open>properties\<close> input is required and occurs exactly once
  (\<^verbatim>\<open>min_occurs\<close> 1, \<^verbatim>\<open>max_occurs\<close> 1), in JSON format.
\<close>

theorem regionalisation_input_schema:
  "allowed_values method_input =
     Some (map PStr [''MLR'', ''SP'', ''PS'', ''SP_IDW'', ''PS_IDW'', ''SP_IDW_RA'', ''PS_IDW_RA''])
   \<and> distinct (the (allowed_values method_input))
   \<and> length (the (allowed_values method_input)) = 7
   \<and> data_type method_input = ''string''
   \<and> default method_input = Some (PStr ''SP_IDW'')
   \<and> PStr ''SP_IDW'' \<in> set (the (allowed_values method_input))
   \<and> min_occurs method_input = Some 0
   \<and> data_type ndonors_input = ''integer''
   \<and> default ndonors_input = Some (PInt 5)
   \<and> min_occurs ndonors_input = Some 0
   \<and> data_type min_NSE_input = ''float''
   \<and> default min_NSE_input = Some (PFloat (Dec 6 1))
   \<and> str_float (Dec 6 1) = ''0.6''
   \<and> min_occurs min_NSE_input = Some 0
   \<and> c_min_occurs properties_input = Some 1
   \<and> c_max_occurs properties_input = Some 1
   \<and> supported_formats properties_input = [JSON]"
  by (simp add: method_input_def ndonors_input_def min_NSE_input_def properties_input_def frac_digits_def digit_def)

section \<open>The default parameters of the HBV-EC process\<close>

lemma replicate_two: "replicate 2 c = [c, c]"
  by (simp add: numeral_2_eq_2)

lemma str_float_params_defaults:
  "map str_float (astuple params_defaults) =
     [''0.05984519'', ''4.072232'', ''2.001574'', ''0.03473693'', ''0.09985144'', ''0.506052'',
      ''3.438486'', ''38.32455'', ''0.4606565'', ''0.06303738'', ''2.277781'', ''4.873686'',
      ''0.5718813'', ''0.04505643'', ''0.877607'', ''18.94145'', ''2.036937'', ''0.4452843'',
      ''0.6771759'', ''1.141608'', ''1.024278'']"
  by (simp add: astuple_def params_defaults_def frac_digits_def digit_def replicate_two)

text \<open>
  C6.  The \<^verbatim>\<open>params\<close> input of the HBV-EC process has as default the 21 default
  parameter values of \<^verbatim>\<open>HBVEC.Params\<close>, from \<^verbatim>\<open>par_x01 = 0.05984519\<close> to
  \<^verbatim>\<open>par_x21 = 1.024278\<close>, printed and joined in field order by a comma and a space; its
  abstract lists the field names in the same order.
\<close>

theorem hbvec_params_default:
  "default (params_input n) = Some (PStr
     (''0.05984519, 4.072232, 2.001574, 0.03473693, 0.09985144, 0.506052, 3.438486, '' @
      ''38.32455, 0.4606565, 0.06303738, 2.277781, 4.873686, 0.5718813, 0.04505643, '' @
      ''0.877607, 18.94145, 2.036937, 0.4452843, 0.6771759, 1.141608, 1.024278''))
   \<and> length (astuple params_defaults) = 21
   \<and> hd params_defaults = (''par_x01'', Dec 5984519 8)
   \<and> last params_defaults = (''par_x21'', Dec 1024278 6)
   \<and> params_abstract =
      ''Parameters: par_x01, par_x02, par_x03, par_x04, par_x05, par_x06, par_x07, '' @
      ''par_x08, par_x09, par_x10, par_x11, par_x12, par_x13, par_x14, par_x15, '' @
      ''par_x16, par_x17, par_x18, par_x19, par_x20, par_x21''"
proof -
  have ends: "hd params_defaults = (''par_x01'', Dec 5984519 8)"
    "last params_defaults = (''par_x21'', Dec 1024278 6)"
    by (simp_all add: params_defaults_def)
  have rendered: "join '', '' (map str_float (astuple params_defaults)) =
     ''0.05984519, 4.072232, 2.001574, 0.03473693, 0.09985144, 0.506052, 3.438486, '' @
     ''38.32455, 0.4606565, 0.06303738, 2.277781, 4.873686, 0.5718813, 0.04505643, '' @
     ''0.877607, 18.94145, 2.036937, 0.4452843, 0.6771759, 1.141608, 1.024278''"
    by (simp add: str_float_params_defaults)
  have count: "length (astuple params_defaults) = 21"
    by (simp add: astuple_def params_defaults_def)
  have names: "params_abstract =
      ''Parameters: par_x01, par_x02, par_x03, par_x04, par_x05, par_x06, par_x07, '' @
      ''par_x08, par_x09, par_x10, par_x11, par_x12, par_x13, par_x14, par_x15, '' @
      ''par_x16, par_x17, par_x18, par_x19, par_x20, par_x21''"
    by (simp add: params_abstract_def dataclass_fields_def params_defaults_def)
  have "default (params_input n) = Some (PStr (join '', '' (map str_float (astuple params_defaults))))"
    by (simp add: params_input_def)
  with rendered count names ends show ?thesis
    by (simp only: simp_thms)
qed

section \<open>Reading the request\<close>

lemma bind_exn_Inl [simp]: "bind_exn (Inl e) f = Inl e"
  by (simp add: bind_exn_def)

lemma bind_exn_Inr [simp]: "bind_exn (Inr x) f = f x"
  by (simp add: bind_exn_def)

lemma bind_exn_eq_Inr: "bind_exn m f = Inr y \<longleftrightarrow> (\<exists>x. m = Inr x \<and> f x = Inr y)"
  by (cases m) simp_all

lemma delete_absent: "map_of d k = None \<Longrightarrow> AList.delete k d = d"
  by (induction d) (auto split: if_splits)

lemma snd_pop_default: "snd (pop_default k d) = AList.delete k d"
  by (simp add: pop_default_def delete_absent split: option.splits)

lemma fst_pop_default: "fst (pop_default k d) = (case map_of d k of None \<Rightarrow> [] | Some v \<Rightarrow> v)"
  by (simp add: pop_default_def split: option.splits)

lemma pop_eq_Inr:
  "pop k d KeyError = Inr p \<longleftrightarrow> (map_of d k = Some (fst p) \<and> snd p = AList.delete k d)"
  by (cases p) (auto simp: pop_def split: option.splits)

lemma first_eq_Inr: "first xs = Inr x \<longleftrightarrow> (\<exists>rest. xs = x # rest)"
  by (cases xs) (auto simp: first_def)

lemma pop_first_eq_Inr:
  "pop_first k d = Inr p \<longleftrightarrow>
     (\<exists>rest. map_of d k = Some (fst p # rest) \<and> snd p = AList.delete k d)"
  by (cases p) (auto simp: pop_first_def bind_exn_eq_Inr pop_eq_Inr first_eq_Inr)

lemma map_of_delete_other: "k \<noteq> k' \<Longrightarrow> map_of (AList.delete k d) k' = map_of d k'"
  by (simp add: delete_conv)

lemma read_inputs_Inr:
  assumes "read_inputs lib inputs = Inr l"
  shows "\<exists>tss mn mns m ms nd nds ns nss p ps kw1.
      map_of inputs ''ts'' = Some tss \<and> ts l = map file_path tss
    \<and> map_of inputs ''model_name'' = Some (mn # mns) \<and> model_name l = data mn
    \<and> map_of inputs ''method'' = Some (m # ms) \<and> method l = data m
    \<and> map_of inputs ''ndonors'' = Some (nd # nds) \<and> ndonors l = data nd
    \<and> map_of inputs ''min_NSE'' = Some (ns # nss) \<and> min_NSE l = data ns
    \<and> map_of inputs ''properties'' = Some (p # ps) \<and> json_loads lib (data p) = Inr (properties l)
    \<and> update_nc_spec lib [] (case map_of inputs ''nc_spec'' of None \<Rightarrow> [] | Some specs \<Rightarrow> specs) = Inr kw1
    \<and> update_items (remaining inputs) kw1 (remaining inputs) = Inr (kwds l)"
proof -
  from assms obtain p1 p2 p3 p4 p5 p6 decoded kw1 kw2 where
    s1: "pop ''ts'' inputs KeyError = Inr p1" and
    s2: "pop_first ''model_name'' (snd p1) = Inr p2" and
    s3: "pop_first ''method'' (snd p2) = Inr p3" and
    s4: "pop_first ''ndonors'' (snd p3) = Inr p4" and
    s5: "pop_first ''min_NSE'' (snd p4) = Inr p5" and
    s6: "pop_first ''properties'' (snd p5) = Inr p6" and
    s7: "json_loads lib (data (fst p6)) = Inr decoded" and
    s8: "update_nc_spec lib [] (fst (pop_default ''nc_spec'' (snd p6))) = Inr kw1" and
    s9: "update_items (snd (pop_default ''nc_spec'' (snd p6))) kw1
           (snd (pop_default ''nc_spec'' (snd p6))) = Inr kw2" and
    l: "l = \<lparr> ts = map file_path (fst p1), model_name = data (fst p2), method = data (fst p3),
             ndonors = data (fst p4), min_NSE = data (fst p5), properties = decoded, kwds = kw2 \<rparr>"
    unfolding read_inputs_def bind_exn_eq_Inr by blast
  from s1 have d1: "map_of inputs ''ts'' = Some (fst p1)" "snd p1 = AList.delete ''ts'' inputs"
    by (simp_all add: pop_eq_Inr)
  from s2 obtain mns where d2: "map_of (snd p1) ''model_name'' = Some (fst p2 # mns)"
      "snd p2 = AList.delete ''model_name'' (snd p1)"
    by (auto simp: pop_first_eq_Inr)
  from s3 obtain ms where d3: "map_of (snd p2) ''method'' = Some (fst p3 # ms)"
      "snd p3 = AList.delete ''method'' (snd p2)"
    by (auto simp: pop_first_eq_Inr)
  from s4 obtain nds where d4: "map_of (snd p3) ''ndonors'' = Some (fst p4 # nds)"
      "snd p4 = AList.delete ''ndonors'' (snd p3)"
    by (auto simp: pop_first_eq_Inr)
  from s5 obtain nss where d5: "map_of (snd p4) ''min_NSE'' = Some (fst p5 # nss)"
      "snd p5 = AList.delete ''min_NSE'' (snd p4)"
    by (auto simp: pop_first_eq_Inr)
  from s6 obtain ps where d6: "map_of (snd p5) ''properties'' = Some (fst p6 # ps)"
      "snd p6 = AList.delete ''properties'' (snd p5)"
    by (auto simp: pop_first_eq_Inr)
  have rest: "snd (pop_default ''nc_spec'' (snd p6)) = remaining inputs"
    by (simp only: snd_pop_default remaining_def d1 d2 d3 d4 d5 d6)
  have m2: "map_of inputs ''model_name'' = Some (fst p2 # mns)"
    using d2(1) by (simp add: d1 map_of_delete_other)
  have m3: "map_of inputs ''method'' = Some (fst p3 # ms)"
    using d3(1) by (simp add: d1 d2 map_of_delete_other)
  have m4: "map_of inputs ''ndonors'' = Some (fst p4 # nds)"
    using d4(1) by (simp add: d1 d2 d3 map_of_delete_other)
  have m5: "map_of inputs ''min_NSE'' = Some (fst p5 # nss)"
    using d5(1) by (simp add: d1 d2 d3 d4 map_of_delete_other)
  have m6: "map_of inputs ''properties'' = Some (fst p6 # ps)"
    using d6(1) by (simp add: d1 d2 d3 d4 d5 map_of_delete_other)
  have nc: "fst (pop_default ''nc_spec'' (snd p6)) =
      (case map_of inputs ''nc_spec'' of None \<Rightarrow> [] | Some specs \<Rightarrow> specs)"
    by (simp add: fst_pop_default d1 d2 d3 d4 d5 d6 map_of_delete_other)
  show ?thesis
    using d1(1) m2 m3 m4 m5 m6 s7 s8 s9 unfolding rest nc l
    by (intro exI conjI) simp_all
qed

lemma read_inputs_succeeds:
  assumes ts: "map_of inputs ''ts'' = Some tss"
    and mn: "map_of inputs ''model_name'' = Some (mn # mns)"
    and m: "map_of inputs ''method'' = Some (m # ms)"
    and nd: "map_of inputs ''ndonors'' = Some (nd # nds)"
    and ns: "map_of inputs ''min_NSE'' = Some (ns # nss)"
    and p: "map_of inputs ''properties'' = Some (p # ps)"
    and dec: "json_loads lib (data p) = Inr decoded"
    and nc: "update_nc_spec lib []
               (case map_of inputs ''nc_spec'' of None \<Rightarrow> [] | Some specs \<Rightarrow> specs) = Inr kw1"
    and items: "update_items (remaining inputs) kw1 (remaining inputs) = Inr kw2"
  shows "read_inputs lib inputs =
     Inr \<lparr> ts = map file_path tss, model_name = data mn, method = data m,
           ndonors = data nd, min_NSE = data ns, properties = decoded, kwds = kw2 \<rparr>"
proof -
  define d1 where "d1 = AList.delete ''ts'' inputs"
  define d2 where "d2 = AList.delete ''model_name'' d1"
  define d3 where "d3 = AList.delete ''method'' d2"
  define d4 where "d4 = AList.delete ''ndonors'' d3"
  define d5 where "d5 = AList.delete ''min_NSE'' d4"
  define d6 where "d6 = AList.delete ''properties'' d5"
  have s1: "pop ''ts'' inputs KeyError = Inr (tss, d1)"
    by (simp add: pop_eq_Inr ts d1_def)
  have s2: "pop_first ''model_name'' d1 = Inr (mn, d2)"
    by (simp add: pop_first_eq_Inr d2_def d1_def map_of_delete_other mn)
  have s3: "pop_first ''method'' d2 = Inr (m, d3)"
    by (simp add: pop_first_eq_Inr d3_def d2_def d1_def map_of_delete_other m)
  have s4: "pop_first ''ndonors'' d3 = Inr (nd, d4)"
    by (simp add: pop_first_eq_Inr d4_def d3_def d2_def d1_def map_of_delete_other nd)
  have s5: "pop_first ''min_NSE'' d4 = Inr (ns, d5)"
    by (simp add: pop_first_eq_Inr d5_def d4_def d3_def d2_def d1_def map_of_delete_other ns)
  have s6: "pop_first ''properties'' d5 = Inr (p, d6)"
    by (simp add: pop_first_eq_Inr d6_def d5_def d4_def d3_def d2_def d1_def
          map_of_delete_other p)
  have specs: "fst (pop_default ''nc_spec'' d6) =
      (case map_of inputs ''nc_spec'' of None \<Rightarrow> [] | Some specs \<Rightarrow> specs)"
    by (simp add: fst_pop_default d6_def d5_def d4_def d3_def d2_def d1_def map_of_delete_other)
  have rest: "snd (pop_default ''nc_spec'' d6) = remaining inputs"
    by (simp only: snd_pop_default remaining_def d6_def d5_def d4_def d3_def d2_def d1_def)
  show ?thesis
    unfolding read_inputs_def
    by (simp add: s1 s2 s3 s4 s5 s6 dec specs rest nc items)
qed

section \<open>The runs of the regionalisation handler\<close>

lemma write_outputs_no_regionalize:
  "Call_regionalize a \<notin> set (snd (write_outputs lib workdir qsim_ensemble))"
  by (simp add: write_outputs_def Let_def split: option.splits)

lemma write_outputs_no_log:
  "LOGGER_exception x \<notin> set (snd (write_outputs lib workdir qsim_ensemble))"
  by (simp add: write_outputs_def Let_def split: option.splits)

lemma write_outputs_no_read:
  "Call_read_gauged_params mn \<notin> set (snd (write_outputs lib workdir qsim_ensemble))"
  "Call_read_gauged_properties ks \<notin> set (snd (write_outputs lib workdir qsim_ensemble))"
  by (simp_all add: write_outputs_def Let_def split: option.splits)

lemma handler_run:
  assumes l: "read_inputs lib inputs = Inr l"
    and np: "read_gauged_params lib (model_name l) = Inr np"
    and d: "properties l = PDict d"
    and props: "read_gauged_properties lib (map fst d) = Inr props"
    and ungauged: "comprehension d (map fst d) [] = Inr ungauged"
    and a: "a = \<lparr> arg_method = method l, arg_model_name = model_name l,
              arg_nash = fst np, arg_params = snd np, arg_props = props,
              arg_ungauged_props = ungauged, kw_size = ndonors l, kw_min_NSE = min_NSE l,
              kw_ts = ts l, unpacked_kwds = kwds l \<rparr>"
  shows "RegionalisationProcess_handler lib workdir inputs =
    (case regionalize lib a of
       Inl exc \<Rightarrow>
         if is_Exception exc
         then (Some (ProcessError (format_exc lib exc) (length (format_exc lib exc))
                       string_printable),
               gauged_prefix l d @ [Call_regionalize a, LOGGER_exception exc])
         else (Some exc, gauged_prefix l d @ [Call_regionalize a])
     | Inr qsim_ensemble \<Rightarrow>
         (fst (write_outputs lib workdir qsim_ensemble),
          gauged_prefix l d @
            Call_regionalize a # snd (write_outputs lib workdir qsim_ensemble)))"
  using l np d props ungauged
  by (simp add: RegionalisationProcess_handler_def a gauged_prefix_def split: sum.splits)

lemma gauged_prefix_no_regionalize: "Call_regionalize a \<notin> set (gauged_prefix l d)"
  by (simp add: gauged_prefix_def)

lemma gauged_prefix_no_log: "LOGGER_exception x \<notin> set (gauged_prefix l d)"
  by (simp add: gauged_prefix_def)

lemma gauged_prefix_no_output:
  "To_netcdf obj p \<notin> set (gauged_prefix l d)" "Set_output_file n p \<notin> set (gauged_prefix l d)"
  by (simp_all add: gauged_prefix_def)

lemma handler_reaches_regionalize:
  assumes "Call_regionalize args \<in> set (snd (RegionalisationProcess_handler lib workdir inputs))"
  obtains l d where
    "read_inputs lib inputs = Inr l"
    "properties l = PDict d"
    "read_gauged_params lib (model_name l) = Inr (arg_nash args, arg_params args)"
    "read_gauged_properties lib (map fst d) = Inr (arg_props args)"
    "comprehension d (map fst d) [] = Inr (arg_ungauged_props args)"
    "arg_method args = method l" "arg_model_name args = model_name l"
    "kw_size args = ndonors l" "kw_min_NSE args = min_NSE l" "kw_ts args = ts l"
    "unpacked_kwds args = kwds l"
    "RegionalisationProcess_handler lib workdir inputs =
       (case regionalize lib args of
          Inl exc \<Rightarrow>
            if is_Exception exc
            then (Some (ProcessError (format_exc lib exc) (length (format_exc lib exc))
                          string_printable),
                  gauged_prefix l d @ [Call_regionalize args, LOGGER_exception exc])
            else (Some exc, gauged_prefix l d @ [Call_regionalize args])
        | Inr qsim_ensemble \<Rightarrow>
            (fst (write_outputs lib workdir qsim_ensemble),
             gauged_prefix l d @
               Call_regionalize args # snd (write_outputs lib workdir qsim_ensemble)))"
proof (cases "read_inputs lib inputs")
  case (Inl e)
  with assms show ?thesis by (simp add: RegionalisationProcess_handler_def)
next
  case (Inr l)
  note l = this
  show ?thesis
  proof (cases "read_gauged_params lib (model_name l)")
    case (Inl e)
    with assms l show ?thesis by (simp add: RegionalisationProcess_handler_def)
  next
    case (Inr np)
    note np = this
    show ?thesis
    proof (cases "\<exists>d. properties l = PDict d")
      case False
      with assms l np show ?thesis
        by (cases "properties l") (simp_all add: RegionalisationProcess_handler_def)
    next
      case True
      then obtain d where d: "properties l = PDict d" by blast
      show ?thesis
      proof (cases "read_gauged_properties lib (map fst d)")
        case (Inl e)
        with assms l np d show ?thesis by (simp add: RegionalisationProcess_handler_def)
      next
        case (Inr props)
        note props = this
        show ?thesis
        proof (cases "comprehension d (map fst d) []")
          case (Inl e)
          with assms l np d props show ?thesis by (simp add: RegionalisationProcess_handler_def)
        next
          case (Inr ungauged)
          define a where "a = \<lparr> arg_method = method l, arg_model_name = model_name l,
              arg_nash = fst np, arg_params = snd np, arg_props = props,
              arg_ungauged_props = ungauged, kw_size = ndonors l, kw_min_NSE = min_NSE l,
              kw_ts = ts l, unpacked_kwds = kwds l \<rparr>"
          have run: "RegionalisationProcess_handler lib workdir inputs =
            (case regionalize lib a of
               Inl exc \<Rightarrow>
                 if is_Exception exc
                 then (Some (ProcessError (format_exc lib exc) (length (format_exc lib exc))
                               string_printable),
                       gauged_prefix l d @ [Call_regionalize a, LOGGER_exception exc])
                 else (Some exc, gauged_prefix l d @ [Call_regionalize a])
             | Inr qsim_ensemble \<Rightarrow>
                 (fst (write_outputs lib workdir qsim_ensemble),
                  gauged_prefix l d @
                    Call_regionalize a # snd (write_outputs lib workdir qsim_ensemble)))"
            by (rule handler_run [OF l np d props Inr a_def])
          have eq: "args = a"
            using assms unfolding run
            by (auto simp: gauged_prefix_def write_outputs_no_regionalize
                  split: sum.splits if_splits)
          show ?thesis
          proof (rule that [of l d])
            show "read_inputs lib inputs = Inr l" by (rule l)
            show "properties l = PDict d" by (rule d)
            show "read_gauged_params lib (model_name l) = Inr (arg_nash args, arg_params args)"
              using np by (simp add: eq a_def)
            show "read_gauged_properties lib (map fst d) = Inr (arg_props args)"
              using props by (simp add: eq a_def)
            show "comprehension d (map fst d) [] = Inr (arg_ungauged_props args)"
              using Inr by (simp add: eq a_def)
            show "arg_method args = method l" "arg_model_name args = model_name l"
              "kw_size args = ndonors l" "kw_min_NSE args = min_NSE l" "kw_ts args = ts l"
              "unpacked_kwds args = kwds l"
              by (simp_all add: eq a_def)
            show "RegionalisationProcess_handler lib workdir inputs =
              (case regionalize lib args of
                 Inl exc \<Rightarrow>
                   if is_Exception exc
                   then (Some (ProcessError (format_exc lib exc) (length (format_exc lib exc))
                                 string_printable),
                         gauged_prefix l d @ [Call_regionalize args, LOGGER_exception exc])
                   else (Some exc, gauged_prefix l d @ [Call_regionalize args])
               | Inr qsim_ensemble \<Rightarrow>
                   (fst (write_outputs lib workdir qsim_ensemble),
                    gauged_prefix l d @
                      Call_regionalize args # snd (write_outputs lib workdir qsim_ensemble)))"
              unfolding eq by (rule run)
          qed
        qed
      qed
    qed
  qed
qed

lemma read_gauged_params_raises_propagates:
  assumes called: "Call_read_gauged_params m \<in> set (snd (RegionalisationProcess_handler lib workdir inputs))"
    and raised: "read_gauged_params lib m = Inl exc"
  shows "RegionalisationProcess_handler lib workdir inputs =
           (Some exc, [Update_status ''Inputs are read'' 1, Call_read_gauged_params m])"
proof (cases "read_inputs lib inputs")
  case (Inl e)
  with called show ?thesis by (simp add: RegionalisationProcess_handler_def)
next
  case (Inr l)
  have "m = model_name l"
    using called Inr
    by (auto simp: RegionalisationProcess_handler_def Let_def write_outputs_no_read
          split: sum.splits pyval.splits if_splits)
  with Inr raised show ?thesis
    by (simp add: RegionalisationProcess_handler_def)
qed

lemma read_gauged_properties_raises_propagates:
  assumes called: "Call_read_gauged_properties ks \<in>
      set (snd (RegionalisationProcess_handler lib workdir inputs))"
    and raised: "read_gauged_properties lib ks = Inl exc"
  shows "\<exists>m. RegionalisationProcess_handler lib workdir inputs =
           (Some exc,
            [Update_status ''Inputs are read'' 1,
             Call_read_gauged_params m,
             Update_status ''Gauged params are read'' 2,
             Call_read_gauged_properties ks])"
proof (cases "read_inputs lib inputs")
  case (Inl e)
  with called show ?thesis by (simp add: RegionalisationProcess_handler_def)
next
  case (Inr l)
  note l = this
  show ?thesis
  proof (cases "read_gauged_params lib (model_name l)")
    case (Inl e)
    with called l show ?thesis by (simp add: RegionalisationProcess_handler_def)
  next
    case (Inr np)
    note np = this
    show ?thesis
    proof (cases "\<exists>d. properties l = PDict d")
      case False
      with called l np show ?thesis
        by (cases "properties l") (simp_all add: RegionalisationProcess_handler_def)
    next
      case True
      then obtain d where d: "properties l = PDict d" by blast
      have "ks = map fst d"
        using called l np d
        by (auto simp: RegionalisationProcess_handler_def Let_def write_outputs_no_read
              split: sum.splits if_splits)
      with l np d raised show ?thesis
        by (simp add: RegionalisationProcess_handler_def)
    qed
  qed
qed

section \<open>Dictionaries built by the handler\<close>

lemma getitem_eq_Inr: "getitem d k err = Inr v \<longleftrightarrow> map_of d k = Some v"
  by (simp add: getitem_def split: option.splits)

lemma comprehension_map_of:
  "comprehension d ks acc = Inr u \<Longrightarrow>
     map_of u k = (if k \<in> set ks then map_of d k else map_of acc k)"
proof (induction ks arbitrary: acc)
  case Nil
  then show ?case by simp
next
  case (Cons key ks)
  from Cons.prems obtain v where v: "map_of d key = Some v"
      and rest: "comprehension d ks (AList.update key v acc) = Inr u"
    by (auto simp: getitem_eq_Inr split: sum.splits)
  from Cons.IH [OF rest] v show ?case
    by (simp add: update_conv')
qed

lemma comprehension_keys_map_of:
  assumes "comprehension d (map fst d) [] = Inr u"
  shows "map_of u = map_of d"
proof
  fix k
  show "map_of u k = map_of d k"
    using comprehension_map_of [OF assms, of k]
    by (auto simp: map_of_eq_None_iff [symmetric] simp del: map_of_eq_None_iff)
qed

lemma update_new_key: "k \<notin> fst ` set al \<Longrightarrow> AList.update k v al = al @ [(k, v)]"
  by (induction al) auto

lemma comprehension_distinct:
  "distinct (map fst (acc @ rest)) \<Longrightarrow> \<forall>kv \<in> set rest. map_of d (fst kv) = Some (snd kv) \<Longrightarrow>
     comprehension d (map fst rest) acc = Inr (acc @ rest)"
proof (induction rest arbitrary: acc)
  case Nil
  then show ?case by simp
next
  case (Cons kv rest)
  have new: "fst kv \<notin> fst ` set acc"
    using Cons.prems(1) by auto
  have "comprehension d (map fst rest) (acc @ [kv]) = Inr ((acc @ [kv]) @ rest)"
    using Cons.prems by (intro Cons.IH) auto
  with Cons.prems(2) new show ?case
    by (cases kv) (simp add: getitem_def update_new_key)
qed

lemma comprehension_keys_distinct:
  assumes "distinct (map fst d)"
  shows "comprehension d (map fst d) [] = Inr d"
  using comprehension_distinct [of "[]" d d] assms by simp

lemma update_items_other:
  "update_items d kw items = Inr kw' \<Longrightarrow> key \<notin> PStr ` fst ` set items \<Longrightarrow>
     map_of kw' key = map_of kw key"
proof (induction items arbitrary: kw)
  case Nil
  then show ?case by simp
next
  case (Cons item items)
  from Cons.prems(1) obtain i :: wps_input where
    rest: "update_items d (AList.update (PStr (fst item)) (data i) kw) items = Inr kw'"
    by (cases "bind_exn (getitem d (fst item) KeyError) first") simp_all
  from Cons.IH [OF rest] Cons.prems(2) show ?case
    by (auto simp: update_conv')
qed

lemma update_items_key:
  "update_items d kw items = Inr kw' \<Longrightarrow>
     k \<in> fst ` set items \<or> (\<exists>i rest. map_of d k = Some (i # rest) \<and> map_of kw (PStr k) = Some (data i)) \<Longrightarrow>
     \<exists>i rest. map_of d k = Some (i # rest) \<and> map_of kw' (PStr k) = Some (data i)"
proof (induction items arbitrary: kw)
  case Nil
  then show ?case by simp
next
  case (Cons item items)
  from Cons.prems(1) obtain i where
    got: "bind_exn (getitem d (fst item) KeyError) first = Inr i" and
    run: "update_items d (AList.update (PStr (fst item)) (data i) kw) items = Inr kw'"
    by (cases "bind_exn (getitem d (fst item) KeyError) first") simp_all
  from got obtain rest where look: "map_of d (fst item) = Some (i # rest)"
    unfolding bind_exn_eq_Inr getitem_eq_Inr first_eq_Inr by blast
  show ?case
  proof (rule Cons.IH [OF run])
    show "k \<in> fst ` set items \<or>
      (\<exists>j rest. map_of d k = Some (j # rest) \<and>
         map_of (AList.update (PStr (fst item)) (data i) kw) (PStr k) = Some (data j))"
    proof (cases "k = fst item")
      case True
      with look show ?thesis by (simp add: update_conv')
    next
      case False
      with Cons.prems(2) show ?thesis by (auto simp: update_conv')
    qed
  qed
qed

lemma map_of_remaining:
  "key \<notin> set consumed \<Longrightarrow> map_of (remaining inputs) key = map_of inputs key"
  unfolding remaining_def consumed_def by (simp add: map_of_delete_other)

lemma keys_delete: "fst ` set (AList.delete k al) = fst ` set al - {k}"
  by (induction al) auto

lemma fst_set_remaining:
  "fst ` set (remaining inputs) = fst ` set inputs - set consumed"
  unfolding remaining_def consumed_def keys_delete by auto

lemma comprehension_total:
  "set ks \<subseteq> fst ` set d \<Longrightarrow> \<exists>u. comprehension d ks acc = Inr u"
proof (induction ks arbitrary: acc)
  case Nil
  then show ?case by simp
next
  case (Cons key ks)
  from Cons.prems have "map_of d key \<noteq> None"
    by (simp add: map_of_eq_None_iff)
  then obtain v where "getitem d key KeyError = Inr v"
    by (auto simp: getitem_eq_Inr)
  with Cons.IH [of "AList.update key v acc"] Cons.prems show ?case
    by simp
qed

lemma update_items_total:
  "\<forall>item \<in> set items. \<exists>i rest. map_of d (fst item) = Some (i # rest) \<Longrightarrow>
     \<exists>kw'. update_items d kw items = Inr kw'"
proof (induction items arbitrary: kw)
  case Nil
  then show ?case by simp
next
  case (Cons item items)
  from Cons.prems obtain i :: wps_input and rest where
    "map_of d (fst item) = Some (i # rest)"
    by auto
  then have "bind_exn (getitem d (fst item) KeyError) first = Inr i"
    by (simp add: getitem_def first_def)
  with Cons.IH [of "AList.update (PStr (fst item)) (data i) kw"] Cons.prems show ?case
    by simp
qed

lemma remaining_items_total:
  assumes "\<forall>k occ. map_of inputs k = Some occ \<and> k \<notin> set consumed \<longrightarrow> occ \<noteq> []"
  shows "\<exists>kw'. update_items (remaining inputs) kw (remaining inputs) = Inr kw'"
proof (rule update_items_total, rule ballI)
  fix item
  assume "item \<in> set (remaining inputs)"
  then have key: "fst item \<in> fst ` set (remaining inputs)"
    by simp
  then have left: "fst item \<notin> set consumed"
    by (simp add: fst_set_remaining)
  from key obtain occ where occ: "map_of (remaining inputs) (fst item) = Some occ"
    by (metis map_of_eq_None_iff not_Some_eq)
  with left have "map_of inputs (fst item) = Some occ"
    by (simp add: map_of_remaining)
  with assms left have "occ \<noteq> []"
    by blast
  then obtain i rest where "occ = i # rest"
    by (cases occ) auto
  with occ show "\<exists>i rest. map_of (remaining inputs) (fst item) = Some (i # rest)"
    by blast
qed

section \<open>Runs that reach the call of \<^verbatim>\<open>regionalize\<close>\<close>

lemma handler_calls_regionalize:
  assumes ts: "map_of inputs ''ts'' = Some tss"
    and mn: "map_of inputs ''model_name'' = Some (mn # mns)"
    and m: "map_of inputs ''method'' = Some (m # ms)"
    and nd: "map_of inputs ''ndonors'' = Some (nd # nds)"
    and ns: "map_of inputs ''min_NSE'' = Some (ns # nss)"
    and p: "map_of inputs ''properties'' = Some (p # ps)"
    and dec: "json_loads lib (data p) = Inr (PDict d)"
    and nc: "update_nc_spec lib []
               (case map_of inputs ''nc_spec'' of None \<Rightarrow> [] | Some specs \<Rightarrow> specs) = Inr kw1"
    and occur: "\<forall>k occ. map_of inputs k = Some occ \<and> k \<notin> set consumed \<longrightarrow> occ \<noteq> []"
    and gp: "read_gauged_params lib (data mn) = Inr (nash, params)"
    and gprops: "read_gauged_properties lib (map fst d) = Inr props"
  obtains kw2 ungauged l a where
    "update_items (remaining inputs) kw1 (remaining inputs) = Inr kw2"
    "comprehension d (map fst d) [] = Inr ungauged"
    "l = \<lparr> ts = map file_path tss, model_name = data mn, method = data m,
           ndonors = data nd, min_NSE = data ns, properties = PDict d, kwds = kw2 \<rparr>"
    "a = \<lparr> arg_method = data m, arg_model_name = data mn,
           arg_nash = nash, arg_params = params, arg_props = props,
           arg_ungauged_props = ungauged, kw_size = data nd, kw_min_NSE = data ns,
           kw_ts = map file_path tss, unpacked_kwds = kw2 \<rparr>"
    "RegionalisationProcess_handler lib workdir inputs =
       (case regionalize lib a of
          Inl exc \<Rightarrow>
            if is_Exception exc
            then (Some (ProcessError (format_exc lib exc) (length (format_exc lib exc))
                          string_printable),
                  gauged_prefix l d @ [Call_regionalize a, LOGGER_exception exc])
            else (Some exc, gauged_prefix l d @ [Call_regionalize a])
        | Inr qsim_ensemble \<Rightarrow>
            (fst (write_outputs lib workdir qsim_ensemble),
             gauged_prefix l d @
               Call_regionalize a # snd (write_outputs lib workdir qsim_ensemble)))"
proof -
  from remaining_items_total [OF occur] obtain kw2 where
    items: "update_items (remaining inputs) kw1 (remaining inputs) = Inr kw2"
    by blast
  from comprehension_total [of "map fst d" d "[]"] obtain ungauged where
    ungauged: "comprehension d (map fst d) [] = Inr ungauged"
    by auto
  define l where "l = \<lparr> ts = map file_path tss, model_name = data mn, method = data m,
      ndonors = data nd, min_NSE = data ns, properties = PDict d, kwds = kw2 \<rparr>"
  define a where "a = \<lparr> arg_method = data m, arg_model_name = data mn,
      arg_nash = nash, arg_params = params, arg_props = props,
      arg_ungauged_props = ungauged, kw_size = data nd, kw_min_NSE = data ns,
      kw_ts = map file_path tss, unpacked_kwds = kw2 \<rparr>"
  have read: "read_inputs lib inputs = Inr l"
    unfolding l_def by (rule read_inputs_succeeds [OF ts mn m nd ns p dec nc items])
  have gp': "read_gauged_params lib (model_name l) = Inr (nash, params)"
    by (simp add: l_def gp)
  have d': "properties l = PDict d"
    by (simp add: l_def)
  have a': "a = \<lparr> arg_method = method l, arg_model_name = model_name l,
      arg_nash = fst (nash, params), arg_params = snd (nash, params), arg_props = props,
      arg_ungauged_props = ungauged, kw_size = ndonors l, kw_min_NSE = min_NSE l,
      kw_ts = ts l, unpacked_kwds = kwds l \<rparr>"
    by (simp add: a_def l_def)
  show ?thesis
    by (rule that [OF items ungauged l_def a_def])
       (rule handler_run [OF read gp' d' gprops ungauged a'])
qed

text \<open>
  Conversely, a run that holds a call of \<^verbatim>\<open>regionalize\<close> is a run on such a request:
  the inputs are there, the library has answered, and the arguments of the call are
  these inputs and answers.
\<close>

lemma called_with_inputs_only:
  assumes called: "Call_regionalize args \<in> set (snd (RegionalisationProcess_handler lib workdir inputs))"
  shows "\<exists>tss mn mns m ms nd nds ns nss p ps d.
      map_of inputs ''ts'' = Some tss \<and> kw_ts args = map file_path tss
    \<and> map_of inputs ''model_name'' = Some (mn # mns) \<and> arg_model_name args = data mn
    \<and> map_of inputs ''method'' = Some (m # ms) \<and> arg_method args = data m
    \<and> map_of inputs ''ndonors'' = Some (nd # nds) \<and> kw_size args = data nd
    \<and> map_of inputs ''min_NSE'' = Some (ns # nss) \<and> kw_min_NSE args = data ns
    \<and> map_of inputs ''properties'' = Some (p # ps) \<and> json_loads lib (data p) = Inr (PDict d)
    \<and> read_gauged_params lib (data mn) = Inr (arg_nash args, arg_params args)
    \<and> read_gauged_properties lib (map fst d) = Inr (arg_props args)
    \<and> map_of (arg_ungauged_props args) = map_of d
    \<and> (distinct (map fst d) \<longrightarrow> arg_ungauged_props args = d)"
proof -
  from called obtain l d where
    l: "read_inputs lib inputs = Inr l" and
    d: "properties l = PDict d" and
    gp: "read_gauged_params lib (model_name l) = Inr (arg_nash args, arg_params args)" and
    props: "read_gauged_properties lib (map fst d) = Inr (arg_props args)" and
    ung: "comprehension d (map fst d) [] = Inr (arg_ungauged_props args)" and
    a: "arg_method args = method l" "arg_model_name args = model_name l"
       "kw_size args = ndonors l" "kw_min_NSE args = min_NSE l" "kw_ts args = ts l"
    by (rule handler_reaches_regionalize)
  from read_inputs_Inr [OF l] obtain tss mn mns m ms nd nds ns nss p ps where
    r: "map_of inputs ''ts'' = Some tss" "ts l = map file_path tss"
       "map_of inputs ''model_name'' = Some (mn # mns)" "model_name l = data mn"
       "map_of inputs ''method'' = Some (m # ms)" "method l = data m"
       "map_of inputs ''ndonors'' = Some (nd # nds)" "ndonors l = data nd"
       "map_of inputs ''min_NSE'' = Some (ns # nss)" "min_NSE l = data ns"
       "map_of inputs ''properties'' = Some (p # ps)"
       "json_loads lib (data p) = Inr (properties l)"
    by blast
  have same: "map_of (arg_ungauged_props args) = map_of d"
    by (rule comprehension_keys_map_of [OF ung])
  have whole: "distinct (map fst d) \<longrightarrow> arg_ungauged_props args = d"
    using ung comprehension_keys_distinct [of d] by auto
  show ?thesis
    using r a gp props same whole unfolding d
    by (intro exI conjI) simp_all
qed

lemma called_with_remaining_inputs_only:
  assumes called: "Call_regionalize args \<in> set (snd (RegionalisationProcess_handler lib workdir inputs))"
    and present: "map_of inputs key = Some occurrences"
    and left: "key \<notin> set consumed"
  shows "(\<exists>i rest. occurrences = i # rest \<and> map_of (unpacked_kwds args) (PStr key) = Some (data i))
       \<and> (\<exists>kw. update_nc_spec lib []
                  (case map_of inputs ''nc_spec'' of None \<Rightarrow> [] | Some specs \<Rightarrow> specs) = Inr kw
              \<and> (\<forall>k. k \<notin> PStr ` (fst ` set inputs - set consumed) \<longrightarrow>
                     map_of (unpacked_kwds args) k = map_of kw k))"
proof -
  from called obtain l d where
    l: "read_inputs lib inputs = Inr l" and
    k: "unpacked_kwds args = kwds l"
    by (rule handler_reaches_regionalize)
  from read_inputs_Inr [OF l] obtain kw where
    nc: "update_nc_spec lib []
           (case map_of inputs ''nc_spec'' of None \<Rightarrow> [] | Some specs \<Rightarrow> specs) = Inr kw" and
    items: "update_items (remaining inputs) kw (remaining inputs) = Inr (kwds l)"
    by blast
  have "map_of (remaining inputs) key = Some occurrences"
    using present left by (simp add: map_of_remaining)
  then have "key \<in> fst ` set (remaining inputs)"
    by (metis map_of_eq_None_iff option.distinct(1))
  with update_items_key [OF items, of key] obtain i rest where
    "map_of (remaining inputs) key = Some (i # rest)" "map_of (kwds l) (PStr key) = Some (data i)"
    by blast
  with \<open>map_of (remaining inputs) key = Some occurrences\<close>
  have first: "\<exists>i rest. occurrences = i # rest \<and> map_of (unpacked_kwds args) (PStr key) = Some (data i)"
    by (auto simp: k)
  have frame: "\<forall>k. k \<notin> PStr ` (fst ` set inputs - set consumed) \<longrightarrow>
      map_of (unpacked_kwds args) k = map_of kw k"
    using update_items_other [OF items] by (simp add: k fst_set_remaining)
  from first nc frame show ?thesis by blast
qed

section \<open>Runs on the example requests\<close>

lemma json_differ: "example_properties_json \<noteq> example_nc_spec_json"
  by (simp add: example_properties_json_def example_nc_spec_json_def)

lemma example_loads:
  "json_loads example_library (PStr example_properties_json) =
     Inr (PDict [(''area'', PFloat (Dec 42506 1)), (''latitude'', PFloat (Dec 544848 4))])"
  "json_loads example_library (PStr example_nc_spec_json) =
     Inr (PDict [(''latitude'', PInt 0), (''tasmax'', PInt 1)])"
  using json_differ by (simp_all add: example_library_def)

lemma example_read_inputs:
  "json_loads lib = json_loads example_library \<Longrightarrow>
   read_inputs lib example_inputs =
     Inr \<lparr> ts = [''/data/meteo.nc''],
           model_name = PStr ''GR4JCN'',
           method = PStr ''SP_IDW'',
           ndonors = PInt 5,
           min_NSE = PFloat (Dec 6 1),
           properties = PDict [(''area'', PFloat (Dec 42506 1)), (''latitude'', PFloat (Dec 544848 4))],
           kwds = [(PStr ''latitude'', PFloat (Dec 544848 4))] \<rparr>"
  by (simp add: read_inputs_def example_inputs_def literal_def pop_def pop_first_def
        pop_default_def first_def getitem_def bind_exn_def example_loads)

lemma example_run:
  "RegionalisationProcess_handler example_library ''/wd'' example_inputs =
     (None,
      [Update_status ''Inputs are read'' 1,
       Call_read_gauged_params (PStr ''GR4JCN''),
       Update_status ''Gauged params are read'' 2,
       Call_read_gauged_properties [''area'', ''latitude''],
       Update_status ''Gauged properties are read'' 3,
       Call_regionalize example_args,
       Update_status ''Computed regionalization'' 99,
       To_netcdf (LibObj ''qsim'') (''/wd'', ''qsim.nc''),
       Set_output_file ''hydrograph'' (''/wd'', ''qsim.nc''),
       To_netcdf (LibObj ''ensemble'') (''/wd'', ''ensemble.nc''),
       Set_output_file ''ensemble'' (''/wd'', ''ensemble.nc'')])"
  by (simp add: RegionalisationProcess_handler_def example_read_inputs getitem_def
        example_args_def Let_def example_library_def write_outputs_def)

lemma regionalize_raises_run:
  "RegionalisationProcess_handler regionalize_raises ''/wd'' example_inputs =
     (Some (ProcessError example_traceback (length example_traceback) string_printable),
      [Update_status ''Inputs are read'' 1,
       Call_read_gauged_params (PStr ''GR4JCN''),
       Update_status ''Gauged params are read'' 2,
       Call_read_gauged_properties [''area'', ''latitude''],
       Update_status ''Gauged properties are read'' 3,
       Call_regionalize example_args,
       LOGGER_exception (Raised True ''ValueError'')])"
proof -
  have "read_inputs regionalize_raises example_inputs =
     Inr \<lparr> ts = [''/data/meteo.nc''],
           model_name = PStr ''GR4JCN'',
           method = PStr ''SP_IDW'',
           ndonors = PInt 5,
           min_NSE = PFloat (Dec 6 1),
           properties = PDict [(''area'', PFloat (Dec 42506 1)), (''latitude'', PFloat (Dec 544848 4))],
           kwds = [(PStr ''latitude'', PFloat (Dec 544848 4))] \<rparr>"
    by (rule example_read_inputs) (simp add: regionalize_raises_def)
  then show ?thesis
    by (simp add: RegionalisationProcess_handler_def getitem_def example_args_def
          Let_def regionalize_raises_def example_library_def)
qed

lemma read_gauged_properties_raises_run:
  "RegionalisationProcess_handler read_gauged_properties_raises ''/wd'' example_inputs =
     (Some (Raised True ''OSError''),
      [Update_status ''Inputs are read'' 1,
       Call_read_gauged_params (PStr ''GR4JCN''),
       Update_status ''Gauged params are read'' 2,
       Call_read_gauged_properties [''area'', ''latitude'']])"
proof -
  have "read_inputs read_gauged_properties_raises example_inputs =
     Inr \<lparr> ts = [''/data/meteo.nc''],
           model_name = PStr ''GR4JCN'',
           method = PStr ''SP_IDW'',
           ndonors = PInt 5,
           min_NSE = PFloat (Dec 6 1),
           properties = PDict [(''area'', PFloat (Dec 42506 1)), (''latitude'', PFloat (Dec 544848 4))],
           kwds = [(PStr ''latitude'', PFloat (Dec 544848 4))] \<rparr>"
    by (rule example_read_inputs) (simp add: read_gauged_properties_raises_def)
  then show ?thesis
    by (simp add: RegionalisationProcess_handler_def Let_def read_gauged_properties_raises_def
          example_library_def)
qed

lemma regionalize_raises_called:
  "Call_regionalize example_args \<in>
     set (snd (RegionalisationProcess_handler regionalize_raises ''/wd'' example_inputs))"
  by (simp add: regionalize_raises_run)

lemma regionalize_raises_raised:
  "regionalize regionalize_raises example_args = Inl (Raised True ''ValueError'')"
  by (simp add: regionalize_raises_def)

lemma format_exc_regionalize_raises: "format_exc regionalize_raises e = example_traceback"
  by (simp add: regionalize_raises_def example_library_def)

lemma example_called:
  "Call_regionalize example_args \<in>
     set (snd (RegionalisationProcess_handler example_library ''/wd'' example_inputs))"
  by (simp add: example_run)

lemma ensemble_unwritable_called:
  "Call_regionalize example_args \<in>
     set (snd (RegionalisationProcess_handler ensemble_unwritable ''/wd'' example_inputs))"
proof -
  have "read_inputs ensemble_unwritable example_inputs =
     Inr \<lparr> ts = [''/data/meteo.nc''],
           model_name = PStr ''GR4JCN'',
           method = PStr ''SP_IDW'',
           ndonors = PInt 5,
           min_NSE = PFloat (Dec 6 1),
           properties = PDict [(''area'', PFloat (Dec 42506 1)), (''latitude'', PFloat (Dec 544848 4))],
           kwds = [(PStr ''latitude'', PFloat (Dec 544848 4))] \<rparr>"
    by (rule example_read_inputs) (simp add: ensemble_unwritable_def)
  then show ?thesis
    by (simp add: RegionalisationProcess_handler_def getitem_def example_args_def
          Let_def ensemble_unwritable_def example_library_def)
qed

section \<open>Exceptions of the library in the regionalisation handler\<close>

text \<open>
  C1, as the code has it.  The \<^verbatim>\<open>try\<close> of the handler encloses the call of
  \<^verbatim>\<open>regionalize\<close> only.  When that call raises an exception that is an \<^verbatim>\<open>Exception\<close>,
  the handler ends with a \<^verbatim>\<open>ProcessError\<close> that carries the formatted traceback; the
  exception is logged once, as the last event of the run, after the one call of
  \<^verbatim>\<open>regionalize\<close>: nothing is retried and nothing follows.  An exception raised by
  \<^verbatim>\<open>read_gauged_params\<close> or by \<^verbatim>\<open>read_gauged_properties\<close> is not caught: the handler
  ends with that very exception, the raising call is the last event of the run, and
  nothing is logged.
\<close>

theorem handler_exception_handling:
  "(Call_regionalize args \<in> set (snd (RegionalisationProcess_handler lib workdir inputs))
      \<and> regionalize lib args = Inl exc \<and> is_Exception exc \<longrightarrow>
      fst (RegionalisationProcess_handler lib workdir inputs) =
        Some (ProcessError (format_exc lib exc) (length (format_exc lib exc)) string_printable)
      \<and> (\<exists>pre. snd (RegionalisationProcess_handler lib workdir inputs) =
                 pre @ [Call_regionalize args, LOGGER_exception exc]
             \<and> (\<forall>a. Call_regionalize a \<notin> set pre)
             \<and> (\<forall>x. LOGGER_exception x \<notin> set pre)))
   \<and> (Call_read_gauged_params m \<in> set (snd (RegionalisationProcess_handler lib workdir inputs))
      \<and> read_gauged_params lib m = Inl exc \<longrightarrow>
      RegionalisationProcess_handler lib workdir inputs =
        (Some exc, [Update_status ''Inputs are read'' 1, Call_read_gauged_params m]))
   \<and> (Call_read_gauged_properties ks \<in>
        set (snd (RegionalisationProcess_handler lib workdir inputs))
      \<and> read_gauged_properties lib ks = Inl exc \<longrightarrow>
      (\<exists>mn. RegionalisationProcess_handler lib workdir inputs =
        (Some exc,
         [Update_status ''Inputs are read'' 1,
          Call_read_gauged_params mn,
          Update_status ''Gauged params are read'' 2,
          Call_read_gauged_properties ks])))"
proof (intro conjI impI)
  assume a: "Call_regionalize args \<in> set (snd (RegionalisationProcess_handler lib workdir inputs))
      \<and> regionalize lib args = Inl exc \<and> is_Exception exc"
  then have called: "Call_regionalize args \<in>
      set (snd (RegionalisationProcess_handler lib workdir inputs))"
    and raised: "regionalize lib args = Inl exc" and exc: "is_Exception exc"
    by simp_all
  from called obtain l d where
    run: "RegionalisationProcess_handler lib workdir inputs =
       (case regionalize lib args of
          Inl exc \<Rightarrow>
            if is_Exception exc
            then (Some (ProcessError (format_exc lib exc) (length (format_exc lib exc))
                          string_printable),
                  gauged_prefix l d @ [Call_regionalize args, LOGGER_exception exc])
            else (Some exc, gauged_prefix l d @ [Call_regionalize args])
        | Inr qsim_ensemble \<Rightarrow>
            (fst (write_outputs lib workdir qsim_ensemble),
             gauged_prefix l d @
               Call_regionalize args # snd (write_outputs lib workdir qsim_ensemble)))"
    by (rule handler_reaches_regionalize)
  have eq: "RegionalisationProcess_handler lib workdir inputs =
      (Some (ProcessError (format_exc lib exc) (length (format_exc lib exc)) string_printable),
       gauged_prefix l d @ [Call_regionalize args, LOGGER_exception exc])"
    unfolding run by (simp add: raised exc)
  show "fst (RegionalisationProcess_handler lib workdir inputs) =
      Some (ProcessError (format_exc lib exc) (length (format_exc lib exc)) string_printable)"
    unfolding eq by simp
  show "\<exists>pre. snd (RegionalisationProcess_handler lib workdir inputs) =
               pre @ [Call_regionalize args, LOGGER_exception exc]
           \<and> (\<forall>a. Call_regionalize a \<notin> set pre)
           \<and> (\<forall>x. LOGGER_exception x \<notin> set pre)"
    unfolding eq
    using gauged_prefix_no_regionalize [of _ l d] gauged_prefix_no_log [of _ l d]
    by auto
next
  assume "Call_read_gauged_params m \<in> set (snd (RegionalisationProcess_handler lib workdir inputs))
      \<and> read_gauged_params lib m = Inl exc"
  then show "RegionalisationProcess_handler lib workdir inputs =
        (Some exc, [Update_status ''Inputs are read'' 1, Call_read_gauged_params m])"
    by (elim conjE) (rule read_gauged_params_raises_propagates)
next
  assume "Call_read_gauged_properties ks \<in>
        set (snd (RegionalisationProcess_handler lib workdir inputs))
      \<and> read_gauged_properties lib ks = Inl exc"
  then show "\<exists>mn. RegionalisationProcess_handler lib workdir inputs =
        (Some exc,
         [Update_status ''Inputs are read'' 1,
          Call_read_gauged_params mn,
          Update_status ''Gauged params are read'' 2,
          Call_read_gauged_properties ks])"
    by (elim conjE) (rule read_gauged_properties_raises_propagates)
qed

theorem handler_exception_handling_witness:
  "fst (RegionalisationProcess_handler regionalize_raises ''/wd'' example_inputs) =
      Some (ProcessError example_traceback (length example_traceback) string_printable)
   \<and> (\<exists>pre. snd (RegionalisationProcess_handler regionalize_raises ''/wd'' example_inputs) =
              pre @ [Call_regionalize example_args, LOGGER_exception (Raised True ''ValueError'')]
          \<and> (\<forall>a. Call_regionalize a \<notin> set pre)
          \<and> (\<forall>x. LOGGER_exception x \<notin> set pre))
   \<and> (\<exists>mn. RegionalisationProcess_handler read_gauged_properties_raises ''/wd'' example_inputs =
        (Some (Raised True ''OSError''),
         [Update_status ''Inputs are read'' 1,
          Call_read_gauged_params mn,
          Update_status ''Gauged params are read'' 2,
          Call_read_gauged_properties [''area'', ''latitude'']]))"
proof -
  have caught:
    "fst (RegionalisationProcess_handler regionalize_raises ''/wd'' example_inputs) =
        Some (ProcessError example_traceback (length example_traceback) string_printable)
     \<and> (\<exists>pre. snd (RegionalisationProcess_handler regionalize_raises ''/wd'' example_inputs) =
              pre @ [Call_regionalize example_args, LOGGER_exception (Raised True ''ValueError'')]
          \<and> (\<forall>a. Call_regionalize a \<notin> set pre)
          \<and> (\<forall>x. LOGGER_exception x \<notin> set pre))"
    using handler_exception_handling
        [where lib = regionalize_raises and args = example_args and workdir = "''/wd''"
           and inputs = example_inputs and exc = "Raised True ''ValueError''", THEN conjunct1]
      regionalize_raises_called regionalize_raises_raised
    by (simp add: format_exc_regionalize_raises)
  have called: "Call_read_gauged_properties [''area'', ''latitude''] \<in>
      set (snd (RegionalisationProcess_handler read_gauged_properties_raises ''/wd''
                  example_inputs))"
    by (simp add: read_gauged_properties_raises_run)
  have raised: "read_gauged_properties read_gauged_properties_raises [''area'', ''latitude''] =
      Inl (Raised True ''OSError'')"
    by (simp add: read_gauged_properties_raises_def)
  have passed:
    "\<exists>mn. RegionalisationProcess_handler read_gauged_properties_raises ''/wd'' example_inputs =
        (Some (Raised True ''OSError''),
         [Update_status ''Inputs are read'' 1,
          Call_read_gauged_params mn,
          Update_status ''Gauged params are read'' 2,
          Call_read_gauged_properties [''area'', ''latitude'']])"
    using handler_exception_handling
        [where lib = read_gauged_properties_raises and ks = "[''area'', ''latitude'']"
           and workdir = "''/wd''" and inputs = example_inputs
           and exc = "Raised True ''OSError''", THEN conjunct2, THEN conjunct2]
      called raised
    by blast
  from caught passed show ?thesis by blast
qed

text \<open>
  C1 as it is stated fails for \<^verbatim>\<open>read_gauged_params\<close>: with a library whose
  \<^verbatim>\<open>read_gauged_params\<close> raises, the run ends with the exception as raised, not with a
  \<^verbatim>\<open>ProcessError\<close>, and its events hold no log entry.
\<close>

theorem read_gauged_params_exception_not_converted:
  "RegionalisationProcess_handler read_gauged_params_raises ''/wd'' example_inputs =
     (Some (Raised True ''OSError''),
      [Update_status ''Inputs are read'' 1,
       Call_read_gauged_params (PStr ''GR4JCN'')])"
proof -
  have "read_inputs read_gauged_params_raises example_inputs =
     Inr \<lparr> ts = [''/data/meteo.nc''],
           model_name = PStr ''GR4JCN'',
           method = PStr ''SP_IDW'',
           ndonors = PInt 5,
           min_NSE = PFloat (Dec 6 1),
           properties = PDict [(''area'', PFloat (Dec 42506 1)), (''latitude'', PFloat (Dec 544848 4))],
           kwds = [(PStr ''latitude'', PFloat (Dec 544848 4))] \<rparr>"
    by (rule example_read_inputs) (simp add: read_gauged_params_raises_def)
  then show ?thesis
    by (simp add: RegionalisationProcess_handler_def Let_def read_gauged_params_raises_def)
qed

section \<open>The message of the \<^verbatim>\<open>ProcessError\<close>\<close>

text \<open>
  C2, as the code has it.  When the call of \<^verbatim>\<open>regionalize\<close> raises an \<^verbatim>\<open>Exception\<close>, the
  \<^verbatim>\<open>ProcessError\<close> raised to the caller carries the whole formatted traceback as its
  message; the handler gives it the length of that message as \<^verbatim>\<open>max_length\<close>, so that
  the limit cuts nothing off, and \<^verbatim>\<open>string.printable\<close> as \<^verbatim>\<open>allowed_chars\<close>.  The
  handler thereby overrides the defaults its comment names (300 characters, many special
  characters stripped).
\<close>

theorem process_error_carries_whole_traceback:
  assumes called: "Call_regionalize args \<in> set (snd (RegionalisationProcess_handler lib workdir inputs))"
    and raised: "regionalize lib args = Inl exc"
    and exc: "is_Exception exc"
  shows "\<exists>msg max_length allowed_chars.
           fst (RegionalisationProcess_handler lib workdir inputs) =
             Some (ProcessError msg max_length allowed_chars)
         \<and> msg = format_exc lib exc
         \<and> max_length = length msg
         \<and> take max_length msg = msg
         \<and> allowed_chars = string_printable"
proof -
  from called obtain l d where
    run: "RegionalisationProcess_handler lib workdir inputs =
       (case regionalize lib args of
          Inl exc \<Rightarrow>
            if is_Exception exc
            then (Some (ProcessError (format_exc lib exc) (length (format_exc lib exc))
                          string_printable),
                  gauged_prefix l d @ [Call_regionalize args, LOGGER_exception exc])
            else (Some exc, gauged_prefix l d @ [Call_regionalize args])
        | Inr qsim_ensemble \<Rightarrow>
            (fst (write_outputs lib workdir qsim_ensemble),
             gauged_prefix l d @
               Call_regionalize args # snd (write_outputs lib workdir qsim_ensemble)))"
    by (rule handler_reaches_regionalize)
  show ?thesis
    unfolding run by (simp add: raised exc)
qed

theorem process_error_carries_whole_traceback_witness:
  "\<exists>msg max_length allowed_chars.
      fst (RegionalisationProcess_handler regionalize_raises ''/wd'' example_inputs) =
        Some (ProcessError msg max_length allowed_chars)
    \<and> msg = example_traceback
    \<and> max_length = length msg
    \<and> take max_length msg = msg
    \<and> allowed_chars = string_printable"
  using process_error_carries_whole_traceback [OF regionalize_raises_called regionalize_raises_raised]
  by (simp add: format_exc_regionalize_raises)

text \<open>
  C2 as it is stated fails: for a traceback of more than 300 characters with a \<open><\<close> in
  it, the \<^verbatim>\<open>ProcessError\<close> carries the traceback itself and not its first 300
  characters, its limit is the length of the traceback, and every character of the
  traceback is among the allowed ones.
\<close>

theorem process_error_not_truncated_counterexample:
  "fst (RegionalisationProcess_handler regionalize_raises ''/wd'' example_inputs) =
      Some (ProcessError example_traceback (length example_traceback) string_printable)
   \<and> 300 < length example_traceback
   \<and> take 300 example_traceback \<noteq> example_traceback
   \<and> CHR ''<'' \<in> set example_traceback
   \<and> set example_traceback \<subseteq> set string_printable"
proof -
  have len: "300 < length example_traceback"
    by (simp add: example_traceback_def)
  then have "length (take 300 example_traceback) \<noteq> length example_traceback"
    by simp
  then have cut: "take 300 example_traceback \<noteq> example_traceback"
    by metis
  have special: "CHR ''<'' \<in> set example_traceback"
    by (simp add: example_traceback_def)
  have allowed: "set example_traceback \<subseteq> set string_printable"
    by (simp add: example_traceback_def string_printable_def)
  from len cut special allowed show ?thesis
    by (simp add: regionalize_raises_run)
qed

section \<open>No output after a failed regionalisation\<close>

text \<open>
  C9.  When the call of \<^verbatim>\<open>regionalize\<close> raises, whatever the exception, the handler ends
  with an exception and its run holds neither a file written (\<^verbatim>\<open>qsim.nc\<close>,
  \<^verbatim>\<open>ensemble.nc\<close>) nor a response output set (\<^verbatim>\<open>hydrograph\<close>, \<^verbatim>\<open>ensemble\<close>).
\<close>

theorem regionalize_failure_writes_nothing:
  assumes called: "Call_regionalize args \<in> set (snd (RegionalisationProcess_handler lib workdir inputs))"
    and raised: "regionalize lib args = Inl exc"
  shows "fst (RegionalisationProcess_handler lib workdir inputs) \<noteq> None
       \<and> (\<forall>obj p. To_netcdf obj p \<notin> set (snd (RegionalisationProcess_handler lib workdir inputs)))
       \<and> (\<forall>name p. Set_output_file name p \<notin>
             set (snd (RegionalisationProcess_handler lib workdir inputs)))"
proof -
  from called obtain l d where
    run: "RegionalisationProcess_handler lib workdir inputs =
       (case regionalize lib args of
          Inl exc \<Rightarrow>
            if is_Exception exc
            then (Some (ProcessError (format_exc lib exc) (length (format_exc lib exc))
                          string_printable),
                  gauged_prefix l d @ [Call_regionalize args, LOGGER_exception exc])
            else (Some exc, gauged_prefix l d @ [Call_regionalize args])
        | Inr qsim_ensemble \<Rightarrow>
            (fst (write_outputs lib workdir qsim_ensemble),
             gauged_prefix l d @
               Call_regionalize args # snd (write_outputs lib workdir qsim_ensemble)))"
    by (rule handler_reaches_regionalize)
  show ?thesis
    unfolding run
    using gauged_prefix_no_output [of _ _ l d]
    by (simp add: raised)
qed

theorem regionalize_failure_writes_nothing_witness:
  "fst (RegionalisationProcess_handler regionalize_raises ''/wd'' example_inputs) \<noteq> None
   \<and> (\<forall>obj p. To_netcdf obj p \<notin>
         set (snd (RegionalisationProcess_handler regionalize_raises ''/wd'' example_inputs)))
   \<and> (\<forall>name p. Set_output_file name p \<notin>
         set (snd (RegionalisationProcess_handler regionalize_raises ''/wd'' example_inputs)))"
  using regionalize_failure_writes_nothing [OF regionalize_raises_called regionalize_raises_raised]
  by simp

section \<open>The arguments of \<^verbatim>\<open>regionalize\<close>\<close>

text \<open>
  C3.  Take a request that has the inputs \<^verbatim>\<open>ts\<close>, \<^verbatim>\<open>model_name\<close>, \<^verbatim>\<open>method\<close>,
  \<^verbatim>\<open>ndonors\<close>, \<^verbatim>\<open>min_NSE\<close> and \<^verbatim>\<open>properties\<close>, whose \<^verbatim>\<open>properties\<close> decode to a
  JSON object, whose \<^verbatim>\<open>nc_spec\<close> occurrences decode and whose other inputs each have an
  occurrence, and a library whose \<^verbatim>\<open>read_gauged_params\<close> and \<^verbatim>\<open>read_gauged_properties\<close>
  return.  Then the handler does call \<^verbatim>\<open>regionalize\<close>, once, and the arguments of that
  call are the inputs of the request, unchanged: \<^verbatim>\<open>method\<close> and \<^verbatim>\<open>model_name\<close> are the
  data of the first occurrence of these inputs, \<^verbatim>\<open>size\<close> that of \<^verbatim>\<open>ndonors\<close>,
  \<^verbatim>\<open>min_NSE\<close> that of \<^verbatim>\<open>min_NSE\<close>, and \<^verbatim>\<open>ts\<close> the files of all occurrences of
  \<^verbatim>\<open>ts\<close>; \<^verbatim>\<open>nash\<close> and \<^verbatim>\<open>params\<close> are what \<^verbatim>\<open>read_gauged_params\<close>, called with the
  model name, returned; the gauged properties are what \<^verbatim>\<open>read_gauged_properties\<close>,
  called with exactly the keys of the decoded \<^verbatim>\<open>properties\<close>, returned; and the ungauged
  properties are the decoded dictionary, key for key and value for value (the same list
  of items when its keys are distinct, as those of a Python dictionary are).
\<close>

theorem handler_forwards_inputs:
  assumes ts: "map_of inputs ''ts'' = Some tss"
    and mn: "map_of inputs ''model_name'' = Some (mn # mns)"
    and m: "map_of inputs ''method'' = Some (m # ms)"
    and nd: "map_of inputs ''ndonors'' = Some (nd # nds)"
    and ns: "map_of inputs ''min_NSE'' = Some (ns # nss)"
    and p: "map_of inputs ''properties'' = Some (p # ps)"
    and dec: "json_loads lib (data p) = Inr (PDict d)"
    and nc: "update_nc_spec lib []
               (case map_of inputs ''nc_spec'' of None \<Rightarrow> [] | Some specs \<Rightarrow> specs) = Inr kw1"
    and occur: "\<forall>k occ. map_of inputs k = Some occ \<and> k \<notin> set consumed \<longrightarrow> occ \<noteq> []"
    and gp: "read_gauged_params lib (data mn) = Inr (nash, params)"
    and gprops: "read_gauged_properties lib (map fst d) = Inr props"
  shows "\<exists>args.
      Call_regionalize args \<in> set (snd (RegionalisationProcess_handler lib workdir inputs))
    \<and> (\<forall>a. Call_regionalize a \<in> set (snd (RegionalisationProcess_handler lib workdir inputs))
            \<longrightarrow> a = args)
    \<and> arg_method args = data m
    \<and> arg_model_name args = data mn
    \<and> (\<forall>x. Call_read_gauged_params x \<in>
              set (snd (RegionalisationProcess_handler lib workdir inputs)) \<longleftrightarrow> x = data mn)
    \<and> arg_nash args = nash \<and> arg_params args = params
    \<and> (\<forall>ks. Call_read_gauged_properties ks \<in>
              set (snd (RegionalisationProcess_handler lib workdir inputs)) \<longleftrightarrow> ks = map fst d)
    \<and> arg_props args = props
    \<and> map_of (arg_ungauged_props args) = map_of d
    \<and> (distinct (map fst d) \<longrightarrow> arg_ungauged_props args = d)
    \<and> kw_size args = data nd
    \<and> kw_min_NSE args = data ns
    \<and> kw_ts args = map file_path tss"
proof -
  obtain kw2 ungauged l a where
    ungauged: "comprehension d (map fst d) [] = Inr ungauged" and
    a: "a = \<lparr> arg_method = data m, arg_model_name = data mn,
           arg_nash = nash, arg_params = params, arg_props = props,
           arg_ungauged_props = ungauged, kw_size = data nd, kw_min_NSE = data ns,
           kw_ts = map file_path tss, unpacked_kwds = kw2 \<rparr>" and
    l: "l = \<lparr> ts = map file_path tss, model_name = data mn, method = data m,
           ndonors = data nd, min_NSE = data ns, properties = PDict d, kwds = kw2 \<rparr>" and
    run: "RegionalisationProcess_handler lib workdir inputs =
       (case regionalize lib a of
          Inl exc \<Rightarrow>
            if is_Exception exc
            then (Some (ProcessError (format_exc lib exc) (length (format_exc lib exc))
                          string_printable),
                  gauged_prefix l d @ [Call_regionalize a, LOGGER_exception exc])
            else (Some exc, gauged_prefix l d @ [Call_regionalize a])
        | Inr qsim_ensemble \<Rightarrow>
            (fst (write_outputs lib workdir qsim_ensemble),
             gauged_prefix l d @
               Call_regionalize a # snd (write_outputs lib workdir qsim_ensemble)))"
    by (rule handler_calls_regionalize [OF ts mn m nd ns p dec nc occur gp gprops, of workdir])
  have called: "Call_regionalize a \<in>
      set (snd (RegionalisationProcess_handler lib workdir inputs))"
    unfolding run by (simp split: sum.splits)
  have once: "\<forall>b. Call_regionalize b \<in>
      set (snd (RegionalisationProcess_handler lib workdir inputs)) \<longrightarrow> b = a"
    unfolding run
    by (auto simp: gauged_prefix_def write_outputs_no_regionalize split: sum.splits if_splits)
  have params_call: "\<forall>x. Call_read_gauged_params x \<in>
      set (snd (RegionalisationProcess_handler lib workdir inputs)) \<longleftrightarrow> x = data mn"
    unfolding run
    by (auto simp: gauged_prefix_def write_outputs_no_read l split: sum.splits if_splits)
  have props_call: "\<forall>ks. Call_read_gauged_properties ks \<in>
      set (snd (RegionalisationProcess_handler lib workdir inputs)) \<longleftrightarrow> ks = map fst d"
    unfolding run
    by (auto simp: gauged_prefix_def write_outputs_no_read split: sum.splits if_splits)
  have same: "map_of (arg_ungauged_props a) = map_of d"
    using comprehension_keys_map_of [OF ungauged] by (simp add: a)
  have whole: "distinct (map fst d) \<longrightarrow> arg_ungauged_props a = d"
    using ungauged comprehension_keys_distinct [of d] by (auto simp: a)
  have fields: "arg_method a = data m" "arg_model_name a = data mn" "arg_nash a = nash"
    "arg_params a = params" "arg_props a = props" "kw_size a = data nd"
    "kw_min_NSE a = data ns" "kw_ts a = map file_path tss"
    by (simp_all add: a)
  from called once params_call props_call same whole fields show ?thesis
    by (intro exI [of _ a] conjI)
qed

theorem handler_forwards_inputs_witness:
  "\<exists>args.
      Call_regionalize args \<in>
        set (snd (RegionalisationProcess_handler example_library ''/wd'' example_inputs))
    \<and> (\<forall>a. Call_regionalize a \<in>
              set (snd (RegionalisationProcess_handler example_library ''/wd'' example_inputs))
            \<longrightarrow> a = args)
    \<and> arg_method args = PStr ''SP_IDW''
    \<and> arg_model_name args = PStr ''GR4JCN''
    \<and> arg_nash args = LibObj ''nash'' \<and> arg_params args = LibObj ''params''
    \<and> Call_read_gauged_properties [''area'', ''latitude''] \<in>
          set (snd (RegionalisationProcess_handler example_library ''/wd'' example_inputs))
    \<and> arg_props args = LibObj ''props''
    \<and> arg_ungauged_props args =
          [(''area'', PFloat (Dec 42506 1)), (''latitude'', PFloat (Dec 544848 4))]
    \<and> kw_size args = PInt 5
    \<and> kw_min_NSE args = PFloat (Dec 6 1)
    \<and> kw_ts args = [''/data/meteo.nc'']"
proof -
  have ts: "map_of example_inputs ''ts'' = Some [\<lparr> data = PNone, file_path = ''/data/meteo.nc'' \<rparr>]"
    and mn: "map_of example_inputs ''model_name'' = Some (literal (PStr ''GR4JCN'') # [])"
    and m: "map_of example_inputs ''method'' = Some (literal (PStr ''SP_IDW'') # [])"
    and nd: "map_of example_inputs ''ndonors'' = Some (literal (PInt 5) # [])"
    and ns: "map_of example_inputs ''min_NSE'' = Some (literal (PFloat (Dec 6 1)) # [])"
    and p: "map_of example_inputs ''properties'' =
        Some (literal (PStr example_properties_json) # [])"
    by (simp_all add: example_inputs_def)
  have dec: "json_loads example_library (data (literal (PStr example_properties_json))) =
      Inr (PDict [(''area'', PFloat (Dec 42506 1)), (''latitude'', PFloat (Dec 544848 4))])"
    by (simp add: literal_def example_loads)
  have nc: "update_nc_spec example_library []
      (case map_of example_inputs ''nc_spec'' of None \<Rightarrow> [] | Some specs \<Rightarrow> specs) = Inr []"
    by (simp add: example_inputs_def)
  have occur: "\<forall>k occ. map_of example_inputs k = Some occ \<and> k \<notin> set consumed \<longrightarrow> occ \<noteq> []"
    by (auto simp: example_inputs_def split: if_splits)
  have gp: "read_gauged_params example_library (data (literal (PStr ''GR4JCN''))) =
      Inr (LibObj ''nash'', LibObj ''params'')"
    by (simp add: example_library_def)
  have gprops: "read_gauged_properties example_library
      (map fst [(''area'', PFloat (Dec 42506 1)), (''latitude'', PFloat (Dec 544848 4))]) =
      Inr (LibObj ''props'')"
    by (simp add: example_library_def)
  from handler_forwards_inputs [OF ts mn m nd ns p dec nc occur gp gprops, of "''/wd''"]
  show ?thesis
    by (simp add: literal_def) blast
qed

section \<open>The remaining inputs as keyword arguments\<close>

text \<open>
  C10.  For the same requests and libraries, the one call of \<^verbatim>\<open>regionalize\<close> that the
  handler makes has, for every input of the request other than \<^verbatim>\<open>ts\<close>,
  \<^verbatim>\<open>model_name\<close>, \<^verbatim>\<open>method\<close>, \<^verbatim>\<open>ndonors\<close>, \<^verbatim>\<open>min_NSE\<close>, \<^verbatim>\<open>properties\<close> and
  \<^verbatim>\<open>nc_spec\<close>, the data of the first occurrence of that input as the unpacked keyword
  argument under the input's identifier: further occurrences do not matter, and neither
  does a value that \<^verbatim>\<open>nc_spec\<close> gave the same key.  Under every other key the keyword
  arguments hold what the \<^verbatim>\<open>nc_spec\<close> occurrences put there.
\<close>

theorem remaining_inputs_forwarded:
  assumes ts: "map_of inputs ''ts'' = Some tss"
    and mn: "map_of inputs ''model_name'' = Some (mn # mns)"
    and m: "map_of inputs ''method'' = Some (m # ms)"
    and nd: "map_of inputs ''ndonors'' = Some (nd # nds)"
    and ns: "map_of inputs ''min_NSE'' = Some (ns # nss)"
    and p: "map_of inputs ''properties'' = Some (p # ps)"
    and dec: "json_loads lib (data p) = Inr (PDict d)"
    and nc: "update_nc_spec lib []
               (case map_of inputs ''nc_spec'' of None \<Rightarrow> [] | Some specs \<Rightarrow> specs) = Inr kw1"
    and occur: "\<forall>k occ. map_of inputs k = Some occ \<and> k \<notin> set consumed \<longrightarrow> occ \<noteq> []"
    and gp: "read_gauged_params lib (data mn) = Inr (nash, params)"
    and gprops: "read_gauged_properties lib (map fst d) = Inr props"
    and present: "map_of inputs key = Some occurrences"
    and left: "key \<notin> set consumed"
  shows "\<exists>args i rest.
      Call_regionalize args \<in> set (snd (RegionalisationProcess_handler lib workdir inputs))
    \<and> (\<forall>a. Call_regionalize a \<in> set (snd (RegionalisationProcess_handler lib workdir inputs))
            \<longrightarrow> a = args)
    \<and> occurrences = i # rest
    \<and> map_of (unpacked_kwds args) (PStr key) = Some (data i)
    \<and> (\<forall>k. k \<notin> PStr ` (fst ` set inputs - set consumed) \<longrightarrow>
            map_of (unpacked_kwds args) k = map_of kw1 k)"
proof -
  obtain kw2 ungauged l a where
    items: "update_items (remaining inputs) kw1 (remaining inputs) = Inr kw2" and
    a: "a = \<lparr> arg_method = data m, arg_model_name = data mn,
           arg_nash = nash, arg_params = params, arg_props = props,
           arg_ungauged_props = ungauged, kw_size = data nd, kw_min_NSE = data ns,
           kw_ts = map file_path tss, unpacked_kwds = kw2 \<rparr>" and
    run: "RegionalisationProcess_handler lib workdir inputs =
       (case regionalize lib a of
          Inl exc \<Rightarrow>
            if is_Exception exc
            then (Some (ProcessError (format_exc lib exc) (length (format_exc lib exc))
                          string_printable),
                  gauged_prefix l d @ [Call_regionalize a, LOGGER_exception exc])
            else (Some exc, gauged_prefix l d @ [Call_regionalize a])
        | Inr qsim_ensemble \<Rightarrow>
            (fst (write_outputs lib workdir qsim_ensemble),
             gauged_prefix l d @
               Call_regionalize a # snd (write_outputs lib workdir qsim_ensemble)))"
    by (rule handler_calls_regionalize [OF ts mn m nd ns p dec nc occur gp gprops, of workdir])
  have called: "Call_regionalize a \<in>
      set (snd (RegionalisationProcess_handler lib workdir inputs))"
    unfolding run by (simp split: sum.splits)
  have once: "\<forall>b. Call_regionalize b \<in>
      set (snd (RegionalisationProcess_handler lib workdir inputs)) \<longrightarrow> b = a"
    unfolding run
    by (auto simp: gauged_prefix_def write_outputs_no_regionalize split: sum.splits if_splits)
  have kw: "unpacked_kwds a = kw2"
    by (simp add: a)
  have looked: "map_of (remaining inputs) key = Some occurrences"
    using present left by (simp add: map_of_remaining)
  then have "key \<in> fst ` set (remaining inputs)"
    by (metis map_of_eq_None_iff option.distinct(1))
  with update_items_key [OF items, of key] obtain i rest where
    "map_of (remaining inputs) key = Some (i # rest)" "map_of kw2 (PStr key) = Some (data i)"
    by blast
  with looked have first: "occurrences = i # rest"
      "map_of (unpacked_kwds a) (PStr key) = Some (data i)"
    by (simp_all add: kw)
  have frame: "\<forall>k. k \<notin> PStr ` (fst ` set inputs - set consumed) \<longrightarrow>
      map_of (unpacked_kwds a) k = map_of kw1 k"
    using update_items_other [OF items] by (simp add: kw fst_set_remaining)
  from called once first frame show ?thesis
    by (intro exI [of _ a] exI [of _ i] exI [of _ rest] conjI)
qed

theorem remaining_inputs_forwarded_witness:
  "\<exists>args.
      Call_regionalize args \<in>
        set (snd (RegionalisationProcess_handler example_library ''/wd'' override_inputs))
    \<and> (\<forall>a. Call_regionalize a \<in>
              set (snd (RegionalisationProcess_handler example_library ''/wd'' override_inputs))
            \<longrightarrow> a = args)
    \<and> map_of (unpacked_kwds args) (PStr ''latitude'') = Some (PFloat (Dec 544848 4))
    \<and> map_of (unpacked_kwds args) (PStr ''tasmax'') = Some (PInt 1)"
proof -
  have ts: "map_of override_inputs ''ts'' = Some [\<lparr> data = PNone, file_path = ''/data/meteo.nc'' \<rparr>]"
    and mn: "map_of override_inputs ''model_name'' = Some (literal (PStr ''GR4JCN'') # [])"
    and m: "map_of override_inputs ''method'' = Some (literal (PStr ''SP_IDW'') # [])"
    and nd: "map_of override_inputs ''ndonors'' = Some (literal (PInt 5) # [])"
    and ns: "map_of override_inputs ''min_NSE'' = Some (literal (PFloat (Dec 6 1)) # [])"
    and p: "map_of override_inputs ''properties'' =
        Some (literal (PStr example_properties_json) # [])"
    and present: "map_of override_inputs ''latitude'' =
        Some [literal (PFloat (Dec 544848 4)), literal (PFloat (Dec 10 0))]"
    by (simp_all add: override_inputs_def)
  have dec: "json_loads example_library (data (literal (PStr example_properties_json))) =
      Inr (PDict [(''area'', PFloat (Dec 42506 1)), (''latitude'', PFloat (Dec 544848 4))])"
    by (simp add: literal_def example_loads)
  have nc: "update_nc_spec example_library []
      (case map_of override_inputs ''nc_spec'' of None \<Rightarrow> [] | Some specs \<Rightarrow> specs) =
      Inr [(PStr ''latitude'', PInt 0), (PStr ''tasmax'', PInt 1)]"
    by (simp add: override_inputs_def literal_def example_loads)
  have occur: "\<forall>k occ. map_of override_inputs k = Some occ \<and> k \<notin> set consumed \<longrightarrow> occ \<noteq> []"
    by (auto simp: override_inputs_def split: if_splits)
  have gp: "read_gauged_params example_library (data (literal (PStr ''GR4JCN''))) =
      Inr (LibObj ''nash'', LibObj ''params'')"
    by (simp add: example_library_def)
  have gprops: "read_gauged_properties example_library
      (map fst [(''area'', PFloat (Dec 42506 1)), (''latitude'', PFloat (Dec 544848 4))]) =
      Inr (LibObj ''props'')"
    by (simp add: example_library_def)
  have left: "''latitude'' \<notin> set consumed"
    by (simp add: consumed_def)
  have other: "PStr ''tasmax'' \<notin> PStr ` (fst ` set override_inputs - set consumed)"
    by (auto simp: override_inputs_def)
  from remaining_inputs_forwarded
         [OF ts mn m nd ns p dec nc occur gp gprops present left, of "''/wd''"]
  obtain args i rest where
    called: "Call_regionalize args \<in>
        set (snd (RegionalisationProcess_handler example_library ''/wd'' override_inputs))" and
    once: "\<forall>a. Call_regionalize a \<in>
        set (snd (RegionalisationProcess_handler example_library ''/wd'' override_inputs))
          \<longrightarrow> a = args" and
    occ: "[literal (PFloat (Dec 544848 4)), literal (PFloat (Dec 10 0))] = i # rest" and
    first: "map_of (unpacked_kwds args) (PStr ''latitude'') = Some (data i)" and
    frame: "\<forall>k. k \<notin> PStr ` (fst ` set override_inputs - set consumed) \<longrightarrow>
        map_of (unpacked_kwds args) k =
          map_of [(PStr ''latitude'', PInt 0), (PStr ''tasmax'', PInt 1)] k"
    by blast
  from occ have "data i = PFloat (Dec 544848 4)"
    by (auto simp: literal_def)
  with first have latitude:
    "map_of (unpacked_kwds args) (PStr ''latitude'') = Some (PFloat (Dec 544848 4))"
    by simp
  from frame other have tasmax: "map_of (unpacked_kwds args) (PStr ''tasmax'') = Some (PInt 1)"
    by simp
  from called once latitude tasmax show ?thesis
    by blast
qed

section \<open>The graph of forecast uncertainty\<close>

lemma getitem_first_eq:
  "map_of d k = Some (x # xs) \<Longrightarrow> getitem_first d k = Inr x"
  by (simp add: getitem_first_def getitem_def first_def)

text \<open>
  C5.  For a request with the inputs \<^verbatim>\<open>fcst\<close> and \<^verbatim>\<open>fcst_var\<close>: when \<^verbatim>\<open>qobs\<close> is
  absent the handler calls \<^verbatim>\<open>forecast\<close> with the forecast file and \<^verbatim>\<open>fcst_var\<close>; when
  \<^verbatim>\<open>qobs\<close> is present (with \<^verbatim>\<open>qobs_var\<close>) it calls \<^verbatim>\<open>hindcast\<close> with the forecast
  file, \<^verbatim>\<open>fcst_var\<close>, the observation file and \<^verbatim>\<open>qobs_var\<close>.  In both cases it calls
  no other helper.  When the helper raises, the handler ends with that exception.  When
  it returns a figure, the handler saves the figure as \<^verbatim>\<open>forecast_hydrographs.png\<close> in
  the working directory, closes it and sets that file as the output
  \<^verbatim>\<open>graph_forecasts\<close>, in this order: if \<^verbatim>\<open>savefig\<close> raises, the figure is not closed
  and no output is set; if \<^verbatim>\<open>plt.close\<close> raises, no output is set; in either case the
  handler ends with the exception.
\<close>

theorem graph_handler_selects_helper:
  assumes fcst: "map_of inputs ''fcst'' = Some (f # fs)"
    and fcst_var: "map_of inputs ''fcst_var'' = Some (v # vs)"
  shows "(map_of inputs ''qobs'' = None \<longrightarrow>
            GraphFcstUncertaintyProcess_handler g workdir inputs =
              (case forecast g (file_path f) (data v) of
                 Inl e \<Rightarrow> (Some e, [Call_forecast (file_path f) (data v)])
               | Inr fig \<Rightarrow>
                  (case savefig g fig (workdir, ''forecast_hydrographs.png'') of
                     Some e \<Rightarrow>
                       (Some e,
                        [Call_forecast (file_path f) (data v),
                         Savefig fig (workdir, ''forecast_hydrographs.png'')])
                   | None \<Rightarrow>
                      (case plt_close g fig of
                         Some e \<Rightarrow>
                           (Some e,
                            [Call_forecast (file_path f) (data v),
                             Savefig fig (workdir, ''forecast_hydrographs.png''),
                             Plt_close fig])
                       | None \<Rightarrow>
                           (None,
                            [Call_forecast (file_path f) (data v),
                             Savefig fig (workdir, ''forecast_hydrographs.png''),
                             Plt_close fig,
                             Set_output_file ''graph_forecasts''
                               (workdir, ''forecast_hydrographs.png'')])))))
       \<and> (\<forall>q qs w ws.
            map_of inputs ''qobs'' = Some (q # qs) \<and> map_of inputs ''qobs_var'' = Some (w # ws) \<longrightarrow>
            GraphFcstUncertaintyProcess_handler g workdir inputs =
              (case hindcast g (file_path f) (data v) (file_path q) (data w) of
                 Inl e \<Rightarrow> (Some e, [Call_hindcast (file_path f) (data v) (file_path q) (data w)])
               | Inr fig \<Rightarrow>
                  (case savefig g fig (workdir, ''forecast_hydrographs.png'') of
                     Some e \<Rightarrow>
                       (Some e,
                        [Call_hindcast (file_path f) (data v) (file_path q) (data w),
                         Savefig fig (workdir, ''forecast_hydrographs.png'')])
                   | None \<Rightarrow>
                      (case plt_close g fig of
                         Some e \<Rightarrow>
                           (Some e,
                            [Call_hindcast (file_path f) (data v) (file_path q) (data w),
                             Savefig fig (workdir, ''forecast_hydrographs.png''),
                             Plt_close fig])
                       | None \<Rightarrow>
                           (None,
                            [Call_hindcast (file_path f) (data v) (file_path q) (data w),
                             Savefig fig (workdir, ''forecast_hydrographs.png''),
                             Plt_close fig,
                             Set_output_file ''graph_forecasts''
                               (workdir, ''forecast_hydrographs.png'')])))))"
proof (intro conjI impI allI)
  assume absent: "map_of inputs ''qobs'' = None"
  have fig: "make_figure g inputs (file_path f) (data v) =
      (forecast g (file_path f) (data v), [Call_forecast (file_path f) (data v)])"
    by (simp add: make_figure_def absent)
  show "GraphFcstUncertaintyProcess_handler g workdir inputs =
      (case forecast g (file_path f) (data v) of
         Inl e \<Rightarrow> (Some e, [Call_forecast (file_path f) (data v)])
       | Inr fig \<Rightarrow>
          (case savefig g fig (workdir, ''forecast_hydrographs.png'') of
             Some e \<Rightarrow>
               (Some e,
                [Call_forecast (file_path f) (data v),
                 Savefig fig (workdir, ''forecast_hydrographs.png'')])
           | None \<Rightarrow>
              (case plt_close g fig of
                 Some e \<Rightarrow>
                   (Some e,
                    [Call_forecast (file_path f) (data v),
                     Savefig fig (workdir, ''forecast_hydrographs.png''),
                     Plt_close fig])
               | None \<Rightarrow>
                   (None,
                    [Call_forecast (file_path f) (data v),
                     Savefig fig (workdir, ''forecast_hydrographs.png''),
                     Plt_close fig,
                     Set_output_file ''graph_forecasts''
                       (workdir, ''forecast_hydrographs.png'')]))))"
    by (simp add: GraphFcstUncertaintyProcess_handler_def getitem_first_eq [OF fcst]
          getitem_first_eq [OF fcst_var] fig Let_def split: sum.splits option.splits)
next
  fix q qs w ws
  assume present: "map_of inputs ''qobs'' = Some (q # qs) \<and> map_of inputs ''qobs_var'' = Some (w # ws)"
  have fig: "make_figure g inputs (file_path f) (data v) =
      (hindcast g (file_path f) (data v) (file_path q) (data w),
       [Call_hindcast (file_path f) (data v) (file_path q) (data w)])"
    using present by (simp add: make_figure_def getitem_first_eq)
  show "GraphFcstUncertaintyProcess_handler g workdir inputs =
      (case hindcast g (file_path f) (data v) (file_path q) (data w) of
         Inl e \<Rightarrow> (Some e, [Call_hindcast (file_path f) (data v) (file_path q) (data w)])
       | Inr fig \<Rightarrow>
          (case savefig g fig (workdir, ''forecast_hydrographs.png'') of
             Some e \<Rightarrow>
               (Some e,
                [Call_hindcast (file_path f) (data v) (file_path q) (data w),
                 Savefig fig (workdir, ''forecast_hydrographs.png'')])
           | None \<Rightarrow>
              (case plt_close g fig of
                 Some e \<Rightarrow>
                   (Some e,
                    [Call_hindcast (file_path f) (data v) (file_path q) (data w),
                     Savefig fig (workdir, ''forecast_hydrographs.png''),
                     Plt_close fig])
               | None \<Rightarrow>
                   (None,
                    [Call_hindcast (file_path f) (data v) (file_path q) (data w),
                     Savefig fig (workdir, ''forecast_hydrographs.png''),
                     Plt_close fig,
                     Set_output_file ''graph_forecasts''
                       (workdir, ''forecast_hydrographs.png'')]))))"
    by (simp add: GraphFcstUncertaintyProcess_handler_def getitem_first_eq [OF fcst]
          getitem_first_eq [OF fcst_var] fig Let_def split: sum.splits option.splits)
qed

theorem graph_handler_selects_helper_witness:
  "GraphFcstUncertaintyProcess_handler example_graphs ''/wd'' example_forecast_inputs =
     (None,
      [Call_forecast ''/data/fcst.nc'' (PStr ''q_sim''),
       Savefig (LibObj ''forecast figure'') (''/wd'', ''forecast_hydrographs.png''),
       Plt_close (LibObj ''forecast figure''),
       Set_output_file ''graph_forecasts'' (''/wd'', ''forecast_hydrographs.png'')])
   \<and> GraphFcstUncertaintyProcess_handler example_graphs ''/wd'' example_hindcast_inputs =
     (None,
      [Call_hindcast ''/data/fcst.nc'' (PStr ''q_sim'') ''/data/qobs.nc'' (PStr ''q_obs''),
       Savefig (LibObj ''hindcast figure'') (''/wd'', ''forecast_hydrographs.png''),
       Plt_close (LibObj ''hindcast figure''),
       Set_output_file ''graph_forecasts'' (''/wd'', ''forecast_hydrographs.png'')])
   \<and> GraphFcstUncertaintyProcess_handler savefig_raises ''/wd'' example_forecast_inputs =
     (Some (Raised True ''PermissionError''),
      [Call_forecast ''/data/fcst.nc'' (PStr ''q_sim''),
       Savefig (LibObj ''forecast figure'') (''/wd'', ''forecast_hydrographs.png'')])"
proof -
  have f1: "map_of example_forecast_inputs ''fcst'' = Some [\<lparr> data = PNone, file_path = ''/data/fcst.nc'' \<rparr>]"
    and v1: "map_of example_forecast_inputs ''fcst_var'' = Some [\<lparr> data = PStr ''q_sim'', file_path = [] \<rparr>]"
    and q1: "map_of example_forecast_inputs ''qobs'' = None"
    by (simp_all add: example_forecast_inputs_def)
  have f2: "map_of example_hindcast_inputs ''fcst'' = Some [\<lparr> data = PNone, file_path = ''/data/fcst.nc'' \<rparr>]"
    and v2: "map_of example_hindcast_inputs ''fcst_var'' = Some [\<lparr> data = PStr ''q_sim'', file_path = [] \<rparr>]"
    and q2: "map_of example_hindcast_inputs ''qobs'' = Some [\<lparr> data = PNone, file_path = ''/data/qobs.nc'' \<rparr>]"
    and w2: "map_of example_hindcast_inputs ''qobs_var'' = Some [\<lparr> data = PStr ''q_obs'', file_path = [] \<rparr>]"
    by (simp_all add: example_hindcast_inputs_def example_forecast_inputs_def)
  from graph_handler_selects_helper [OF f1 v1, of example_graphs "''/wd''"] q1
  have a: "GraphFcstUncertaintyProcess_handler example_graphs ''/wd'' example_forecast_inputs =
     (None,
      [Call_forecast ''/data/fcst.nc'' (PStr ''q_sim''),
       Savefig (LibObj ''forecast figure'') (''/wd'', ''forecast_hydrographs.png''),
       Plt_close (LibObj ''forecast figure''),
       Set_output_file ''graph_forecasts'' (''/wd'', ''forecast_hydrographs.png'')])"
    by (simp add: example_graphs_def)
  from graph_handler_selects_helper [OF f2 v2, of example_graphs "''/wd''"] q2 w2
  have b: "GraphFcstUncertaintyProcess_handler example_graphs ''/wd'' example_hindcast_inputs =
     (None,
      [Call_hindcast ''/data/fcst.nc'' (PStr ''q_sim'') ''/data/qobs.nc'' (PStr ''q_obs''),
       Savefig (LibObj ''hindcast figure'') (''/wd'', ''forecast_hydrographs.png''),
       Plt_close (LibObj ''hindcast figure''),
       Set_output_file ''graph_forecasts'' (''/wd'', ''forecast_hydrographs.png'')])"
    by (simp add: example_graphs_def)
  from graph_handler_selects_helper [OF f1 v1, of savefig_raises "''/wd''"] q1
  have c: "GraphFcstUncertaintyProcess_handler savefig_raises ''/wd'' example_forecast_inputs =
     (Some (Raised True ''PermissionError''),
      [Call_forecast ''/data/fcst.nc'' (PStr ''q_sim''),
       Savefig (LibObj ''forecast figure'') (''/wd'', ''forecast_hydrographs.png'')])"
    by (simp add: savefig_raises_def example_graphs_def)
  from a b c show ?thesis by simp
qed

section \<open>The outputs of a successful regionalisation\<close>

text \<open>
  When the call of \<^verbatim>\<open>regionalize\<close> returns, the handler reports the status, writes
  \<^verbatim>\<open>qsim.nc\<close> and sets it as the output \<^verbatim>\<open>hydrograph\<close>, then writes \<^verbatim>\<open>ensemble.nc\<close>
  and sets it as the output \<^verbatim>\<open>ensemble\<close>, both in the working directory, and returns
  the response.  A \<^verbatim>\<open>to_netcdf\<close> that raises ends the run with its exception: the
  output of that dataset is not set, and after a failure for \<^verbatim>\<open>qsim\<close> nothing is
  written for \<^verbatim>\<open>ensemble\<close>.  Nothing is written or set before the call of
  \<^verbatim>\<open>regionalize\<close>.
\<close>

theorem successful_run_writes_outputs:
  assumes called: "Call_regionalize args \<in> set (snd (RegionalisationProcess_handler lib workdir inputs))"
    and returned: "regionalize lib args = Inr (qsim, ensemble)"
  shows "\<exists>pre.
      (\<forall>obj p. To_netcdf obj p \<notin> set pre)
    \<and> (\<forall>name p. Set_output_file name p \<notin> set pre)
    \<and> RegionalisationProcess_handler lib workdir inputs =
        (case to_netcdf lib qsim (workdir, ''qsim.nc'') of
           Some e \<Rightarrow>
             (Some e,
              pre @ [Call_regionalize args,
                     Update_status ''Computed regionalization'' 99,
                     To_netcdf qsim (workdir, ''qsim.nc'')])
         | None \<Rightarrow>
            (case to_netcdf lib ensemble (workdir, ''ensemble.nc'') of
               Some e \<Rightarrow>
                 (Some e,
                  pre @ [Call_regionalize args,
                         Update_status ''Computed regionalization'' 99,
                         To_netcdf qsim (workdir, ''qsim.nc''),
                         Set_output_file ''hydrograph'' (workdir, ''qsim.nc''),
                         To_netcdf ensemble (workdir, ''ensemble.nc'')])
             | None \<Rightarrow>
                 (None,
                  pre @ [Call_regionalize args,
                         Update_status ''Computed regionalization'' 99,
                         To_netcdf qsim (workdir, ''qsim.nc''),
                         Set_output_file ''hydrograph'' (workdir, ''qsim.nc''),
                         To_netcdf ensemble (workdir, ''ensemble.nc''),
                         Set_output_file ''ensemble'' (workdir, ''ensemble.nc'')])))"
proof -
  from called obtain l d where
    run: "RegionalisationProcess_handler lib workdir inputs =
       (case regionalize lib args of
          Inl exc \<Rightarrow>
            if is_Exception exc
            then (Some (ProcessError (format_exc lib exc) (length (format_exc lib exc))
                          string_printable),
                  gauged_prefix l d @ [Call_regionalize args, LOGGER_exception exc])
            else (Some exc, gauged_prefix l d @ [Call_regionalize args])
        | Inr qsim_ensemble \<Rightarrow>
            (fst (write_outputs lib workdir qsim_ensemble),
             gauged_prefix l d @
               Call_regionalize args # snd (write_outputs lib workdir qsim_ensemble)))"
    by (rule handler_reaches_regionalize)
  show ?thesis
    unfolding run
    using gauged_prefix_no_output [of _ _ l d]
    by (intro exI [of _ "gauged_prefix l d"])
       (simp add: returned write_outputs_def Let_def split: option.splits)
qed

theorem successful_run_writes_outputs_witness:
  "(\<exists>pre.
      (\<forall>obj p. To_netcdf obj p \<notin> set pre)
    \<and> (\<forall>name p. Set_output_file name p \<notin> set pre)
    \<and> RegionalisationProcess_handler example_library ''/wd'' example_inputs =
        (None,
         pre @ [Call_regionalize example_args,
                Update_status ''Computed regionalization'' 99,
                To_netcdf (LibObj ''qsim'') (''/wd'', ''qsim.nc''),
                Set_output_file ''hydrograph'' (''/wd'', ''qsim.nc''),
                To_netcdf (LibObj ''ensemble'') (''/wd'', ''ensemble.nc''),
                Set_output_file ''ensemble'' (''/wd'', ''ensemble.nc'')]))
   \<and> (\<exists>pre.
      (\<forall>obj p. To_netcdf obj p \<notin> set pre)
    \<and> (\<forall>name p. Set_output_file name p \<notin> set pre)
    \<and> RegionalisationProcess_handler ensemble_unwritable ''/wd'' example_inputs =
        (Some (Raised True ''PermissionError''),
         pre @ [Call_regionalize example_args,
                Update_status ''Computed regionalization'' 99,
                To_netcdf (LibObj ''qsim'') (''/wd'', ''qsim.nc''),
                Set_output_file ''hydrograph'' (''/wd'', ''qsim.nc''),
                To_netcdf (LibObj ''ensemble'') (''/wd'', ''ensemble.nc'')]))"
proof -
  have returned: "regionalize example_library example_args =
      Inr (LibObj ''qsim'', LibObj ''ensemble'')"
    by (simp add: example_library_def)
  have returned': "regionalize ensemble_unwritable example_args =
      Inr (LibObj ''qsim'', LibObj ''ensemble'')"
    by (simp add: ensemble_unwritable_def example_library_def)
  have written: "to_netcdf example_library obj p = None" for obj p
    by (simp add: example_library_def)
  have unwritable:
    "to_netcdf ensemble_unwritable (LibObj ''qsim'') p = None"
    "to_netcdf ensemble_unwritable (LibObj ''ensemble'') p = Some (Raised True ''PermissionError'')"
    for p
    by (simp_all add: ensemble_unwritable_def)
  from successful_run_writes_outputs [OF example_called returned]
  have a: "\<exists>pre.
      (\<forall>obj p. To_netcdf obj p \<notin> set pre)
    \<and> (\<forall>name p. Set_output_file name p \<notin> set pre)
    \<and> RegionalisationProcess_handler example_library ''/wd'' example_inputs =
        (None,
         pre @ [Call_regionalize example_args,
                Update_status ''Computed regionalization'' 99,
                To_netcdf (LibObj ''qsim'') (''/wd'', ''qsim.nc''),
                Set_output_file ''hydrograph'' (''/wd'', ''qsim.nc''),
                To_netcdf (LibObj ''ensemble'') (''/wd'', ''ensemble.nc''),
                Set_output_file ''ensemble'' (''/wd'', ''ensemble.nc'')])"
    by (simp add: written)
  from successful_run_writes_outputs [OF ensemble_unwritable_called returned']
  have b: "\<exists>pre.
      (\<forall>obj p. To_netcdf obj p \<notin> set pre)
    \<and> (\<forall>name p. Set_output_file name p \<notin> set pre)
    \<and> RegionalisationProcess_handler ensemble_unwritable ''/wd'' example_inputs =
        (Some (Raised True ''PermissionError''),
         pre @ [Call_regionalize example_args,
                Update_status ''Computed regionalization'' 99,
                To_netcdf (LibObj ''qsim'') (''/wd'', ''qsim.nc''),
                Set_output_file ''hydrograph'' (''/wd'', ''qsim.nc''),
                To_netcdf (LibObj ''ensemble'') (''/wd'', ''ensemble.nc'')])"
    by (simp add: unwritable)
  from a b show ?thesis by blast
qed

end
